theory Spec2Isabelle
  imports Main "HOL-Library.Word" "HOL-Library.Monad_Syntax"
begin

section \<open>SymSPI: the transport state machine of symspi.c\<close>

text \<open>
  The development embeds the state controller, the error ledger, the request
  entry points and the interrupt glue of \<^verbatim>\<open>symspi.c\<close> as HOL functions over an
  explicit device record.

  Conventions of the embedding.
  \<^item> \<^verbatim>\<open>int\<close> and \<^verbatim>\<open>unsigned int\<close> variables whose wrap-around matters are
    32-bit words (\<open>sint\<close> reads the signed ones); \<^verbatim>\<open>unsigned long\<close> is a word of
    length \<open>'l\<close>, the width of the kernel's \<^verbatim>\<open>long\<close> (32 or 64).
  \<^item> Return codes are mathematical integers: 0 for success, the negated error
    number otherwise, as in the source.
  \<^item> Pointers are natural-number addresses, 0 being \<^verbatim>\<open>NULL\<close>.
  \<^item> \<^verbatim>\<open>struct symspi_dev\<close> and its private part \<^verbatim>\<open>struct symspi_dev_private\<close>
    are one record; the field \<open>p\<close> tells whether \<^verbatim>\<open>symspi->p\<close> points to an
    allocated private part.
  \<^item> Calls into the outer layers (work queue, SPI core, GPIO, timer,
    completion, consumer callbacks) are appended to the field \<open>events\<close> in
    the order in which the code makes them, and so are the stores to the
    counter of falling edges, each with the state the device is in at that
    moment.
  \<^item> What the outer layers answer (the level of the peer's flag line, the
    result of \<^verbatim>\<open>spi_async\<close>, the clock, the allocator) is read from a record
    \<open>env\<close> and taken to be constant during one call.
  \<^item> The functions run to completion without interleaving of other contexts;
    a function whose source loop may spin forever returns an \<open>option\<close>, the
    value \<open>None\<close> standing for a call that does not return.
\<close>

subsection \<open>Constants\<close>

abbreviation (input) SYMSPI_SUCCESS :: int where "SYMSPI_SUCCESS \<equiv> 0"
abbreviation (input) SYMSPI_ERROR_LOGICAL :: int where "SYMSPI_ERROR_LOGICAL \<equiv> 1"
abbreviation (input) SYMSPI_ERROR_XFER_SIZE_MISMATCH :: int where "SYMSPI_ERROR_XFER_SIZE_MISMATCH \<equiv> 3"
abbreviation (input) SYMSPI_ERROR_XFER_SIZE_ZERO :: int where "SYMSPI_ERROR_XFER_SIZE_ZERO \<equiv> 4"
abbreviation (input) ENOMEM :: int where "ENOMEM \<equiv> 12"
abbreviation (input) ENODEV :: int where "ENODEV \<equiv> 19"
abbreviation (input) EPIPE :: int where "EPIPE \<equiv> 32"
abbreviation (input) ENOLINK :: int where "ENOLINK \<equiv> 67"
abbreviation (input) EALREADY :: int where "EALREADY \<equiv> 114"
abbreviation (input) SYMSPI_ERROR_NO_MEMORY :: int where "SYMSPI_ERROR_NO_MEMORY \<equiv> ENOMEM"
abbreviation (input) SYMSPI_ERROR_OTHER_SIDE :: int where "SYMSPI_ERROR_OTHER_SIDE \<equiv> EPIPE"
abbreviation (input) SYMSPI_ERROR_STATE :: int where "SYMSPI_ERROR_STATE \<equiv> 8"
abbreviation (input) SYMSPI_ERROR_OVERLAP :: int where "SYMSPI_ERROR_OVERLAP \<equiv> 9"
abbreviation (input) SYMSPI_ERROR_SPI :: int where "SYMSPI_ERROR_SPI \<equiv> 10"
abbreviation (input) SYMSPI_ERROR_NO_SPI :: int where "SYMSPI_ERROR_NO_SPI \<equiv> ENODEV"
abbreviation (input) SYMSPI_ERROR_NO_GPIO :: int where "SYMSPI_ERROR_NO_GPIO \<equiv> 12"
abbreviation (input) SYMSPI_ERROR_NO_XFER :: int where "SYMSPI_ERROR_NO_XFER \<equiv> 13"
abbreviation (input) SYMSPI_ERROR_IRQ_ACQUISITION :: int where "SYMSPI_ERROR_IRQ_ACQUISITION \<equiv> 14"
abbreviation (input) SYMSPI_ERROR_ISR_SETUP :: int where "SYMSPI_ERROR_ISR_SETUP \<equiv> 15"
abbreviation (input) SYMSPI_ERROR_WAIT_OTHER_SIDE :: int where "SYMSPI_ERROR_WAIT_OTHER_SIDE \<equiv> 16"
abbreviation (input) SYMSPI_ERROR_WORKQUEUE_INIT :: int where "SYMSPI_ERROR_WORKQUEUE_INIT \<equiv> 17"

abbreviation (input) SYMSPI_INITIAL_XFER_ID :: "32 word" where "SYMSPI_INITIAL_XFER_ID \<equiv> 1"
abbreviation (input) SYMSPI_PRIVATE_MAGIC :: "32 word" where "SYMSPI_PRIVATE_MAGIC \<equiv> 0x0E31553B"
abbreviation (input) SYMSPI_MIN_ERR_REPORT_INTERVAL_MSEC :: "32 word" where
  "SYMSPI_MIN_ERR_REPORT_INTERVAL_MSEC \<equiv> 10000"
abbreviation (input) SYMSPI_ERR_RATE_DECAY_RATE_MSEC_PER_HALF :: "32 word" where
  "SYMSPI_ERR_RATE_DECAY_RATE_MSEC_PER_HALF \<equiv> 2000"
abbreviation (input) SYMSPI_ERR_RATE_DECAY_RATE_MIN :: "32 word" where
  "SYMSPI_ERR_RATE_DECAY_RATE_MIN \<equiv> 3"

abbreviation (input) SYMSPI_INIT_LEVEL_PRIVATE_ALLOCATED :: nat where "SYMSPI_INIT_LEVEL_PRIVATE_ALLOCATED \<equiv> 1"
abbreviation (input) SYMSPI_INIT_LEVEL_XFER_CREATED :: nat where "SYMSPI_INIT_LEVEL_XFER_CREATED \<equiv> 2"
abbreviation (input) SYMSPI_INIT_LEVEL_WORKQUEUE_INIT :: nat where "SYMSPI_INIT_LEVEL_WORKQUEUE_INIT \<equiv> 3"
abbreviation (input) SYMSPI_INIT_LEVEL_GPIO_IRQS :: nat where "SYMSPI_INIT_LEVEL_GPIO_IRQS \<equiv> 4"
abbreviation (input) SYMSPI_INIT_LEVEL_FULL :: nat where "SYMSPI_INIT_LEVEL_FULL \<equiv> 5"

subsection \<open>Data model\<close>

text \<open>The values of the state variable (\<^verbatim>\<open>SYMSPI_STATE_*\<close>); the code stores no other.\<close>

datatype symspi_state =
    SYMSPI_STATE_COLD
  | SYMSPI_STATE_IDLE
  | SYMSPI_STATE_XFER_PREPARE
  | SYMSPI_STATE_WAITING_PREV
  | SYMSPI_STATE_WAITING_RDY
  | SYMSPI_STATE_XFER
  | SYMSPI_STATE_POSTPROCESSING
  | SYMSPI_STATE_ERROR

text \<open>The three work items of the private part.\<close>

datatype symspi_work = xfer_work | postprocessing_work | recover_work

text \<open>
  Calls into the outer layers, in the order the code makes them, and with them
  the stores to the counter of falling edges.
\<close>

datatype event =
    EvOurFlag bool                  \<comment> \<open>\<^verbatim>\<open>gpiod_set_raw_value\<close> on our flag: active or not\<close>
  | EvScheduleWork symspi_work      \<comment> \<open>\<^verbatim>\<open>queue_work\<close>\<close>
  | EvCancelWorkSync symspi_work    \<comment> \<open>\<^verbatim>\<open>cancel_work_sync\<close>\<close>
  | EvSpiAsync                      \<comment> \<open>\<^verbatim>\<open>spi_async\<close>\<close>
  | EvDropCounterStore "32 word" symspi_state
      \<comment> \<open>a store to \<^verbatim>\<open>their_flag_drop_counter\<close>: the value, and the state at that moment\<close>
  | EvComplete                      \<comment> \<open>\<^verbatim>\<open>complete(final_leave_xfer_completion)\<close>\<close>
  | EvWaitCompletion                \<comment> \<open>\<^verbatim>\<open>wait_for_completion_timeout\<close>\<close>
  | EvTimerRestart                  \<comment> \<open>\<^verbatim>\<open>mod_timer\<close>\<close>
  | EvTimerStop                     \<comment> \<open>\<^verbatim>\<open>del_timer\<close>\<close>
  | EvTimerStopSync                 \<comment> \<open>\<^verbatim>\<open>del_timer_sync\<close>\<close>
  | EvFlagSilence                   \<comment> \<open>\<^verbatim>\<open>symspi_wait_flag_silence_period\<close>\<close>
  | EvErrorSilence                  \<comment> \<open>the sleep after the error pulse train\<close>
  | EvReport "8 word" int bool      \<comment> \<open>a line of the error report: kind, sub-code, class "error"\<close>
  | EvLogUnexpectedCounter          \<comment> \<open>the message on a drop counter \<open>\<le> 0\<close>\<close>
  | EvFailCallback int              \<comment> \<open>the consumer's fail callback, with the error code\<close>
  | EvXferAccepted                  \<comment> \<open>\<^verbatim>\<open>xfer_accepted_callback\<close>\<close>
  | EvRequestIrq bool               \<comment> \<open>\<^verbatim>\<open>request_irq\<close>; the flag: rising edge too\<close>
  | EvFreeIrq                       \<comment> \<open>\<^verbatim>\<open>free_irq\<close>\<close>
  | EvInitWorkqueue
  | EvCloseWorkqueue
  | EvProcfsInit
  | EvProcfsClose
  | EvFreePrivate                   \<comment> \<open>\<^verbatim>\<open>kfree(symspi->p)\<close>\<close>

text \<open>
  \<^verbatim>\<open>struct full_duplex_xfer\<close>. The field \<open>tx_bytes\<close> holds the contents of the
  buffer \<open>data_tx\<close> points to; \<^verbatim>\<open>id\<close> is named \<open>xfer_id\<close>.
\<close>

record full_duplex_xfer =
  size_bytes :: nat
  data_tx :: nat
  tx_bytes :: "8 word list"
  data_rx_buf :: nat
  xfers_counter :: "32 word"
  xfer_id :: "32 word"
  consumer_data :: nat
  done_callback :: nat
  fail_callback :: nat

record (overloaded) 'l symspi_error_rec =
  err_num :: "8 word"
  total_count :: "32 word"
  unreported_count :: "32 word"
  last_report_time_msec :: "'l word"
  last_occurence_time_msec :: "'l word"
  exp_avg_interval_msec :: "'l word"
  last_reported :: bool
  err_per_sec_threshold :: "32 word"

record symspi_info =
  other_side_indicated_errors :: "64 word"
  other_side_no_reaction_errors :: "64 word"
  xfers_done_ok :: "64 word"
  their_flag_edges :: "64 word"

text \<open>The mandatory fields of \<^verbatim>\<open>struct spi_transfer\<close>.\<close>

record spi_transfer =
  tx_buf :: nat
  rx_buf :: nat
  len :: nat

text \<open>
  \<^verbatim>\<open>struct symspi_dev\<close> with its private part. \<open>spi_mode_ready\<close> is
  \<^verbatim>\<open>spi->mode & SPI_READY\<close>, \<open>spi_msg_status\<close> is \<^verbatim>\<open>spi_msg.status\<close>.
\<close>

record (overloaded) 'l symspi_dev =
  xfer_accepted_callback :: nat
  spi :: nat
  spi_mode_ready :: bool
  gpiod_our_flag :: nat
  gpiod_their_flag :: nat
  p :: bool
  next_xfer_id :: "32 word"
  current_xfer :: full_duplex_xfer
  spi_xfer :: spi_transfer
  spi_msg_status :: int
  work_queue :: bool
  state :: symspi_state
  their_flag_drop_counter :: "32 word"
  spi_master_mode :: bool
  hardware_spi_rdy :: bool
  their_flag_irq_number :: int
  delayed_xfer_request :: bool
  close_request :: bool
  last_error :: int
  magic :: "32 word"
  errors :: "'l symspi_error_rec list"
  init_level :: nat
  info :: symspi_info
  events :: "event list"

text \<open>What a consumer callback returns: \<^verbatim>\<open>NULL\<close>, an error pointer, or a new xfer.\<close>

datatype callback_result = CbNull | CbErrPtr | CbXfer full_duplex_xfer

text \<open>
  The answers of the outer layers. \<open>FULL_DUPLEX_ERROR_NOT_READY\<close> is the constant
  of \<^verbatim>\<open>full_duplex_interface.h\<close>, a header outside this repository.
\<close>

record env =
  FULL_DUPLEX_ERROR_NOT_READY :: int
  their_flag_raw :: bool
  spi_async_result :: int
  now_msec :: "32 word"
  krealloc_tx :: nat
  krealloc_rx :: nat
  kzalloc_private :: bool
  alloc_workqueue :: bool
  gpiod_to_irq :: int
  request_irq :: int
  fail_callback_result :: callback_result

definition log_event :: "event \<Rightarrow> 'l symspi_dev \<Rightarrow> 'l symspi_dev" where
  "log_event e d = d\<lparr>events := events d @ [e]\<rparr>"

text \<open>
  A store to \<^verbatim>\<open>their_flag_drop_counter\<close> (\<^verbatim>\<open>__atomic_store_n\<close>, or the plain
  assignment of \<^verbatim>\<open>symspi_init\<close>). The trace keeps the value and the state the
  device is in when the store is made.
\<close>

definition store_their_flag_drop_counter ::
  "'l symspi_dev \<Rightarrow> 32 word \<Rightarrow> 'l symspi_dev" where
  "store_their_flag_drop_counter d v =
     log_event (EvDropCounterStore v (state d)) (d\<lparr>their_flag_drop_counter := v\<rparr>)"

subsection \<open>State controller\<close>

definition symspi_is_closing :: "'l symspi_dev \<Rightarrow> bool" where
  "symspi_is_closing d = close_request d"

text \<open>
  \<^verbatim>\<open>symspi_switch_strict\<close>: the result is the returned flag and the device after
  the call.
\<close>

definition symspi_switch_strict ::
  "'l symspi_dev \<Rightarrow> symspi_state \<Rightarrow> symspi_state \<Rightarrow> bool \<times> 'l symspi_dev" where
  "symspi_switch_strict d expected_state dst_state =
     (if symspi_is_closing d then
        (if expected_state \<noteq> SYMSPI_STATE_XFER \<or> dst_state = SYMSPI_STATE_XFER
         then (False, d)
         else (False,
               log_event EvComplete
                 (if state d = expected_state then d\<lparr>state := dst_state\<rparr> else d)))
      else if state d = expected_state then (True, d\<lparr>state := dst_state\<rparr>)
      else (False, d))"

definition symspi_switch_state_val_forced ::
  "'l symspi_dev \<Rightarrow> symspi_state \<Rightarrow> symspi_state \<times> 'l symspi_dev" where
  "symspi_switch_state_val_forced d dst_state = (state d, d\<lparr>state := dst_state\<rparr>)"

text \<open>The one-line wrappers around the outer layers.\<close>

definition symspi_schedule_work :: "'l::len symspi_dev \<Rightarrow> symspi_work \<Rightarrow> 'l symspi_dev" where
  "symspi_schedule_work d work = log_event (EvScheduleWork work) d"

definition symspi_cancel_work_sync :: "'l::len symspi_dev \<Rightarrow> symspi_work \<Rightarrow> 'l symspi_dev" where
  "symspi_cancel_work_sync d work = log_event (EvCancelWorkSync work) d"

definition symspi_restart_timeout_timer :: "'l::len symspi_dev \<Rightarrow> 'l symspi_dev" where
  "symspi_restart_timeout_timer d = log_event EvTimerRestart d"

definition symspi_stop_timeout_timer :: "'l::len symspi_dev \<Rightarrow> 'l symspi_dev" where
  "symspi_stop_timeout_timer d = log_event EvTimerStop d"

definition symspi_stop_timeout_timer_sync :: "'l::len symspi_dev \<Rightarrow> 'l symspi_dev" where
  "symspi_stop_timeout_timer_sync d = log_event EvTimerStopSync d"

definition symspi_our_flag_set :: "'l::len symspi_dev \<Rightarrow> 'l symspi_dev" where
  "symspi_our_flag_set d = log_event (EvOurFlag True) d"

definition symspi_our_flag_drop :: "'l::len symspi_dev \<Rightarrow> 'l symspi_dev" where
  "symspi_our_flag_drop d = log_event (EvOurFlag False) d"


text \<open>Both active values are 1, so their flag is set when the raw value read is 1.\<close>

definition symspi_their_flag_is_set :: "env \<Rightarrow> 'l::len symspi_dev \<Rightarrow> bool" where
  "symspi_their_flag_is_set env d = their_flag_raw env"

definition symspi_is_their_request :: "env \<Rightarrow> 'l::len symspi_dev \<Rightarrow> bool" where
  "symspi_is_their_request env d =
     (their_flag_drop_counter d = 1 \<and> symspi_their_flag_is_set env d)"

subsection \<open>Error ledger\<close>

text \<open>
  \<^verbatim>\<open>__symspi_get_error_rec\<close>: the index of the first record of the given kind
  (the source returns a pointer to it), \<open>None\<close> for \<^verbatim>\<open>NULL\<close>.
\<close>

fun error_rec_index :: "'l::len symspi_error_rec list \<Rightarrow> 8 word \<Rightarrow> nat option" where
  "error_rec_index [] err_no = None"
| "error_rec_index (r # rs) err_no =
     (if err_num r = err_no then Some 0 else map_option Suc (error_rec_index rs err_no))"

definition symspi_get_error_rec :: "'l::len symspi_dev \<Rightarrow> 8 word \<Rightarrow> nat option" where
  "symspi_get_error_rec d err_no =
     (if \<not> p d \<or> magic d \<noteq> SYMSPI_PRIVATE_MAGIC then None
      else error_rec_index (errors d) err_no)"

text \<open>
  The arithmetic of \<^verbatim>\<open>__symspi_error_report\<close> on one record, with the types of
  the source: the time differences, the decay and the rates are
  \<^verbatim>\<open>unsigned int\<close>, the stored times and the smoothed interval \<^verbatim>\<open>unsigned long\<close>.
\<close>

definition since_msec :: "32 word \<Rightarrow> 'l::len word \<Rightarrow> 32 word" where
  "since_msec now t =
     ucast (if (ucast now :: 'l word) \<ge> t then (ucast now :: 'l word) - t
            else t - (ucast now :: 'l word))"

definition decay_percent :: "32 word \<Rightarrow> 32 word" where
  "decay_percent since_last_occurance_msec =
     max (min ((50 * since_last_occurance_msec) div SYMSPI_ERR_RATE_DECAY_RATE_MSEC_PER_HALF) 100)
         SYMSPI_ERR_RATE_DECAY_RATE_MIN"

definition new_exp_avg_interval :: "32 word \<Rightarrow> 32 word \<Rightarrow> 'l::len word \<Rightarrow> 'l word" where
  "new_exp_avg_interval decay since_last_occurance_msec interval =
     ucast (max (ucast ((ucast (100 - decay) * interval
                         + ucast (decay * since_last_occurance_msec)) div 100) :: 32 word)
                1)"

text \<open>
  \<^verbatim>\<open>__symspi_error_report\<close>: the returned flag ("it is OK to be verbose") and the
  device after the call.
\<close>

definition symspi_error_report ::
  "env \<Rightarrow> 'l::len symspi_dev \<Rightarrow> 8 word \<Rightarrow> int \<Rightarrow> bool \<times> 'l symspi_dev" where
  "symspi_error_report env d err_no sub_error_no =
     (case symspi_get_error_rec d err_no of
        None \<Rightarrow> (True, d)
      | Some i \<Rightarrow>
          (let e0 = errors d ! i;
               now = now_msec env;
               e1 = e0\<lparr>total_count := total_count e0 + 1\<rparr>;
               since_last_report_msec = since_msec now (last_report_time_msec e1);
               since_last_occurance_msec = since_msec now (last_occurence_time_msec e1);
               e2 = e1\<lparr>last_occurence_time_msec := ucast now\<rparr>;
               decay = decay_percent since_last_occurance_msec;
               threshold = err_per_sec_threshold e2;
               prev_rate = 1000 div max (ucast (exp_avg_interval_msec e2) :: 32 word) 1;
               e3 = e2\<lparr>exp_avg_interval_msec :=
                        new_exp_avg_interval decay since_last_occurance_msec
                          (exp_avg_interval_msec e2)\<rparr>;
               rate = (ucast (1000 div exp_avg_interval_msec e3) :: 32 word)
           in if since_last_report_msec < SYMSPI_MIN_ERR_REPORT_INTERVAL_MSEC
                 \<and> \<not> (prev_rate < threshold \<and> rate \<ge> threshold)
              then (False,
                    d\<lparr>errors := (errors d)[i := e3\<lparr>unreported_count := unreported_count e3 + 1,
                                                    last_reported := False\<rparr>]\<rparr>)
              else (True,
                    log_event (EvReport err_no sub_error_no (rate \<ge> threshold))
                      (d\<lparr>errors := (errors d)[i := e3\<lparr>last_report_time_msec := ucast now,
                                                       last_reported := True,
                                                       unreported_count := 0\<rparr>]\<rparr>))))"

text \<open>
  The walk over the states of \<^verbatim>\<open>__symspi_error_handle_\<close>. \<open>switch_strict_any\<close> is
  the chain of \<^verbatim>\<open>SYMSPI_SWITCH_STRICT(...) || ...\<close>, which stops at the first
  switch that succeeds.
\<close>

fun switch_strict_any ::
  "'l::len symspi_dev \<Rightarrow> (symspi_state \<times> symspi_state) list \<Rightarrow> bool \<times> 'l symspi_dev" where
  "switch_strict_any d [] = (False, d)"
| "switch_strict_any d ((a, b) # xs) =
     (case symspi_switch_strict d a b of
        (True, d') \<Rightarrow> (True, d')
      | (False, d') \<Rightarrow> switch_strict_any d' xs)"

text \<open>
  The second switch of the branch for the state XFER ("Secondary call is needed
  due to possible races with \<^verbatim>\<open>symspi_spi_xfer_done_callback\<close>").
\<close>

definition error_handle_secondary :: "'l::len symspi_dev \<Rightarrow> 'l symspi_dev" where
  "error_handle_secondary d =
     (case symspi_switch_strict d SYMSPI_STATE_POSTPROCESSING SYMSPI_STATE_ERROR of
        (True, d') \<Rightarrow> symspi_schedule_work d' recover_work
      | (False, d') \<Rightarrow> d')"

partial_function (option) error_handle_loop ::
  "'l::len symspi_dev \<Rightarrow> 8 word \<Rightarrow> 'l symspi_dev option" where
  "error_handle_loop d err_no =
     (let r1 = switch_strict_any d
                 [(SYMSPI_STATE_IDLE, SYMSPI_STATE_ERROR),
                  (SYMSPI_STATE_XFER_PREPARE, SYMSPI_STATE_ERROR),
                  (SYMSPI_STATE_WAITING_PREV, SYMSPI_STATE_ERROR),
                  (SYMSPI_STATE_WAITING_RDY, SYMSPI_STATE_ERROR),
                  (SYMSPI_STATE_POSTPROCESSING, SYMSPI_STATE_ERROR)]
      in if fst r1
         then Some (symspi_schedule_work ((snd r1)\<lparr>last_error := uint err_no\<rparr>)
                      recover_work)
         else
     (let r2 = symspi_switch_strict (snd r1) SYMSPI_STATE_ERROR SYMSPI_STATE_ERROR
      in if fst r2 then Some (snd r2)
         else
     (let r3 = symspi_switch_strict (snd r2) SYMSPI_STATE_XFER SYMSPI_STATE_XFER
      in if fst r3
         then Some (error_handle_secondary ((snd r3)\<lparr>last_error := uint err_no\<rparr>))
         else
     (let r4 = symspi_switch_strict (snd r3) SYMSPI_STATE_COLD SYMSPI_STATE_COLD
      in if fst r4 then Some (snd r4)
         else error_handle_loop (snd r4) err_no))))"

text \<open>\<^verbatim>\<open>__symspi_error_handle_\<close>; \<open>None\<close> when the walk does not end.\<close>

definition symspi_error_handle ::
  "env \<Rightarrow> 'l::len symspi_dev \<Rightarrow> 8 word \<Rightarrow> int \<Rightarrow> 'l symspi_dev option" where
  "symspi_error_handle env d err_no sub_error_no =
     (if uint err_no = SYMSPI_SUCCESS then Some d
      else
        (let d1 = (if uint err_no = SYMSPI_ERROR_OTHER_SIDE
                   then d\<lparr>info := (info d)\<lparr>other_side_indicated_errors :=
                                 other_side_indicated_errors (info d) + 1\<rparr>\<rparr>
                   else if uint err_no = SYMSPI_ERROR_WAIT_OTHER_SIDE
                   then d\<lparr>info := (info d)\<lparr>other_side_no_reaction_errors :=
                                 other_side_no_reaction_errors (info d) + 1\<rparr>\<rparr>
                   else d);
             (report, d2) = symspi_error_report env d1 err_no sub_error_no
         in error_handle_loop d2 err_no))"

subsection \<open>Transfer buffers\<close>

text \<open>
  \<^verbatim>\<open>symspi_do_resize_xfer\<close>. The two \<^verbatim>\<open>krealloc\<close> calls answer with the addresses
  in \<open>env\<close>, 0 for a failed allocation; on the failure path the buffers are
  freed and only the size is reset, as in the source. The contents of a
  resized buffer are whatever the caller copies into it afterwards.
\<close>

definition symspi_do_resize_xfer :: "env \<Rightarrow> full_duplex_xfer \<Rightarrow> nat \<Rightarrow> full_duplex_xfer" where
  "symspi_do_resize_xfer env xfer new_size_bytes =
     (if size_bytes xfer = new_size_bytes then xfer
      else if new_size_bytes = 0 then xfer\<lparr>size_bytes := 0\<rparr>
      else if krealloc_tx env = 0
      then xfer\<lparr>data_tx := krealloc_tx env, size_bytes := 0\<rparr>
      else if krealloc_rx env = 0
      then xfer\<lparr>data_tx := krealloc_tx env, data_rx_buf := krealloc_rx env, size_bytes := 0\<rparr>
      else xfer\<lparr>data_tx := krealloc_tx env, data_rx_buf := krealloc_rx env,
                size_bytes := new_size_bytes\<rparr>)"

text \<open>
  \<^verbatim>\<open>symspi_do_update_native_spi_xfer_data\<close>: the mandatory fields of the native
  transfer; the consumer's configuration hook touches none of them.
\<close>

definition symspi_do_update_native_spi_xfer_data :: "'l::len symspi_dev \<Rightarrow> 'l symspi_dev" where
  "symspi_do_update_native_spi_xfer_data d =
     d\<lparr>spi_xfer := \<lparr>tx_buf = data_tx (current_xfer d),
                     rx_buf = data_rx_buf (current_xfer d),
                     len = size_bytes (current_xfer d)\<rparr>\<rparr>"

definition regions_overlap :: "nat \<Rightarrow> nat \<Rightarrow> nat \<Rightarrow> nat \<Rightarrow> bool" where
  "regions_overlap r_1 size_1 r_2 size_2 =
     (r_2 < r_1 + size_1 \<and> int r_2 + int size_2 - 1 \<ge> int r_1)"

text \<open>\<^verbatim>\<open>symspi_replace_xfer\<close>: the return code and the device after the call.\<close>

definition symspi_replace_xfer ::
  "env \<Rightarrow> 'l::len symspi_dev \<Rightarrow> full_duplex_xfer \<Rightarrow> bool \<Rightarrow> int \<times> 'l symspi_dev" where
  "symspi_replace_xfer env d new_xfer force_size_change =
     (let curr_xfer = current_xfer d in
      if size_bytes new_xfer = 0 then (- SYMSPI_ERROR_XFER_SIZE_ZERO, d)
      else if regions_overlap (data_tx curr_xfer) (size_bytes curr_xfer)
                (data_tx new_xfer) (size_bytes new_xfer)
      then (- SYMSPI_ERROR_OVERLAP, d)
      else if size_bytes curr_xfer \<noteq> size_bytes new_xfer
              \<and> state d \<noteq> SYMSPI_STATE_XFER \<and> \<not> force_size_change
      then (- SYMSPI_ERROR_XFER_SIZE_MISMATCH, d)
      else
        (let resized = (if size_bytes curr_xfer \<noteq> size_bytes new_xfer
                        then symspi_do_resize_xfer env curr_xfer (size_bytes new_xfer)
                        else curr_xfer)
         in if size_bytes curr_xfer \<noteq> size_bytes new_xfer \<and> size_bytes resized = 0
            then (- SYMSPI_ERROR_NO_MEMORY, d\<lparr>current_xfer := resized\<rparr>)
            else (SYMSPI_SUCCESS,
                  symspi_do_update_native_spi_xfer_data
                    (d\<lparr>current_xfer :=
                         resized\<lparr>tx_bytes := take (size_bytes resized) (tx_bytes new_xfer),
                                 xfer_id := xfer_id new_xfer,
                                 done_callback := done_callback new_xfer,
                                 fail_callback := fail_callback new_xfer,
                                 consumer_data := consumer_data new_xfer,
                                 xfers_counter := xfers_counter new_xfer\<rparr>\<rparr>))))"

definition symspi_get_next_xfer_id :: "'l::len symspi_dev \<Rightarrow> 32 word \<times> 'l symspi_dev" where
  "symspi_get_next_xfer_id d =
     (let xfer_id = next_xfer_id d;
          d1 = d\<lparr>next_xfer_id := next_xfer_id d + 1\<rparr>
      in if sint xfer_id \<le> 0
         then (SYMSPI_INITIAL_XFER_ID, d1\<lparr>next_xfer_id := SYMSPI_INITIAL_XFER_ID + 1\<rparr>)
         else (xfer_id, d1))"

text \<open>
  \<^verbatim>\<open>symspi_verify_consumer_input\<close>, applied to an existing device structure.
  \<open>None\<close> is the \<^verbatim>\<open>NULL\<close> xfer.
\<close>

definition symspi_verify_consumer_input ::
  "'l::len symspi_dev \<Rightarrow> full_duplex_xfer option \<Rightarrow> bool \<Rightarrow> int" where
  "symspi_verify_consumer_input d xfer check_xfer =
     (if spi d = 0 then - SYMSPI_ERROR_NO_SPI
      else if gpiod_our_flag d = 0 \<or> gpiod_their_flag d = 0 then - SYMSPI_ERROR_NO_GPIO
      else if \<not> check_xfer then SYMSPI_SUCCESS
      else (case xfer of
              None \<Rightarrow> - SYMSPI_ERROR_NO_XFER
            | Some x \<Rightarrow>
                if size_bytes x = 0 then - SYMSPI_ERROR_NO_XFER
                else if data_tx x = 0 then - SYMSPI_ERROR_NO_XFER
                else SYMSPI_SUCCESS))"

subsection \<open>Handshake protocol engine\<close>

text \<open>
  \<^verbatim>\<open>symspi_do_xfer\<close>: the counter of falling edges is zeroed, then the message
  is handed to \<^verbatim>\<open>spi_async\<close>.
\<close>

definition symspi_do_xfer :: "env \<Rightarrow> 'l::len symspi_dev \<Rightarrow> int \<times> 'l symspi_dev" where
  "symspi_do_xfer env d =
     (let d1 = store_their_flag_drop_counter d 0;
          d2 = log_event EvSpiAsync d1;
          res = spi_async_result env
      in if res = 0 then (SYMSPI_SUCCESS, d2) else (- SYMSPI_ERROR_SPI, d2))"

definition symspi_try_leave_waiting_rdy_sequence ::
  "env \<Rightarrow> 'l::len symspi_dev \<Rightarrow> int \<times> 'l symspi_dev" where
  "symspi_try_leave_waiting_rdy_sequence env d =
     (case symspi_switch_strict d SYMSPI_STATE_WAITING_RDY SYMSPI_STATE_XFER of
        (True, d1) \<Rightarrow> symspi_do_xfer env (symspi_stop_timeout_timer d1)
      | (False, d1) \<Rightarrow> (SYMSPI_SUCCESS, d1))"

definition symspi_try_leave_waiting_prev_sequence ::
  "env \<Rightarrow> 'l::len symspi_dev \<Rightarrow> int \<times> 'l symspi_dev" where
  "symspi_try_leave_waiting_prev_sequence env d =
     (if \<not> spi_master_mode d then symspi_do_xfer env (symspi_stop_timeout_timer d)
      else if hardware_spi_rdy d then
        (case symspi_switch_strict d SYMSPI_STATE_WAITING_PREV SYMSPI_STATE_XFER of
           (True, d1) \<Rightarrow> symspi_do_xfer env (symspi_stop_timeout_timer d1)
         | (False, d1) \<Rightarrow> (SYMSPI_SUCCESS, d1))
      else
        (case symspi_switch_strict d SYMSPI_STATE_WAITING_PREV SYMSPI_STATE_WAITING_RDY of
           (True, d1) \<Rightarrow>
             (let d2 = symspi_restart_timeout_timer d1
              in if symspi_is_their_request env d2
                 then symspi_try_leave_waiting_rdy_sequence env d2
                 else (SYMSPI_SUCCESS, d2))
         | (False, d1) \<Rightarrow> (SYMSPI_SUCCESS, d1)))"

text \<open>
  \<^verbatim>\<open>symspi_try_to_error_sequence\<close>; the error number is narrowed to
  \<^verbatim>\<open>unsigned char\<close> where the handler takes it.
\<close>

definition symspi_try_to_error_sequence ::
  "env \<Rightarrow> 'l::len symspi_dev \<Rightarrow> int \<Rightarrow> (int \<times> 'l symspi_dev) option" where
  "symspi_try_to_error_sequence env d internal_error =
     (let other_side_error = (sint (their_flag_drop_counter d) > 1)
      in if internal_error \<noteq> SYMSPI_SUCCESS \<or> other_side_error
         then (let err_no = (if internal_error = SYMSPI_SUCCESS
                             then SYMSPI_ERROR_OTHER_SIDE else - internal_error)
               in do { d1 \<leftarrow> symspi_error_handle env d (word_of_int err_no) 0;
                       Some (- err_no, d1) })
         else Some (SYMSPI_SUCCESS, d))"

definition symspi_xfer_prepare_to_waiting_prev_sequence ::
  "env \<Rightarrow> 'l::len symspi_dev \<Rightarrow> (int \<times> 'l symspi_dev) option" where
  "symspi_xfer_prepare_to_waiting_prev_sequence env d =
     do { (res, d1) \<leftarrow> symspi_try_to_error_sequence env (symspi_our_flag_set d) SYMSPI_SUCCESS;
          if res \<noteq> SYMSPI_SUCCESS then Some (res, d1)
          else
            (let d3 = (case symspi_switch_strict d1 SYMSPI_STATE_XFER_PREPARE
                              SYMSPI_STATE_WAITING_PREV of
                         (True, d2) \<Rightarrow> symspi_restart_timeout_timer d2
                       | (False, d2) \<Rightarrow> d2)
             in if their_flag_drop_counter d3 = 1 \<or> \<not> spi_master_mode d3
                then Some (symspi_try_leave_waiting_prev_sequence env d3)
                else Some (SYMSPI_SUCCESS, d3)) }"

subsection \<open>Request entry points\<close>

text \<open>
  \<^verbatim>\<open>symspi_data_xchange\<close>, \<^verbatim>\<open>symspi_idle_to_xfer_prepare_sequence\<close>,
  \<^verbatim>\<open>symspi_update_xfer_sequence\<close> and \<^verbatim>\<open>symspi_to_idle_sequence\<close> call each other:
  the return to IDLE re-enters \<^verbatim>\<open>symspi_data_xchange\<close> with a \<^verbatim>\<open>NULL\<close> xfer.
  The consumer's xfer is passed by pointer and written to (\<^verbatim>\<open>id\<close>,
  \<^verbatim>\<open>xfers_counter\<close>), so the two functions that write it return it as well.
  \<^verbatim>\<open>symspi_data_xchange\<close> dereferences \<^verbatim>\<open>symspi->p\<close> unchecked: without a private
  part the call does not return.
\<close>

function
  symspi_data_xchange ::
    "env \<Rightarrow> 'l::len symspi_dev \<Rightarrow> full_duplex_xfer option \<Rightarrow> bool
      \<Rightarrow> (int \<times> 'l symspi_dev) option"
and
  symspi_idle_to_xfer_prepare_sequence ::
    "env \<Rightarrow> 'l symspi_dev \<Rightarrow> full_duplex_xfer option \<Rightarrow> bool
      \<Rightarrow> (int \<times> full_duplex_xfer option \<times> 'l symspi_dev) option"
and
  symspi_update_xfer_sequence ::
    "env \<Rightarrow> 'l symspi_dev \<Rightarrow> full_duplex_xfer option \<Rightarrow> symspi_state \<Rightarrow> bool
      \<Rightarrow> (int \<times> full_duplex_xfer option \<times> 'l symspi_dev) option"
and
  symspi_to_idle_sequence ::
    "env \<Rightarrow> 'l symspi_dev \<Rightarrow> symspi_state \<Rightarrow> bool \<Rightarrow> int
      \<Rightarrow> (int \<times> 'l symspi_dev) option"
where
  "symspi_data_xchange env d xfer force_size_change =
     (if \<not> p d then None
      else if symspi_is_closing d then Some (- FULL_DUPLEX_ERROR_NOT_READY env, d)
      else
        do { (res, xfer1, d1) \<leftarrow>
               symspi_idle_to_xfer_prepare_sequence env d xfer force_size_change;
             if res = - FULL_DUPLEX_ERROR_NOT_READY env \<and> xfer = None
             then Some (- FULL_DUPLEX_ERROR_NOT_READY env, d1\<lparr>delayed_xfer_request := True\<rparr>)
             else if res \<noteq> SYMSPI_SUCCESS then Some (res, d1)
             else
               do { (res2, d2) \<leftarrow> symspi_xfer_prepare_to_waiting_prev_sequence env d1;
                    Some (case xfer1 of
                            Some x \<Rightarrow> if res2 = SYMSPI_SUCCESS then sint (xfer_id x) else res2
                          | None \<Rightarrow> res2,
                          d2) } })"
| "symspi_idle_to_xfer_prepare_sequence env d xfer force_size_change =
     (let res = symspi_verify_consumer_input d xfer (xfer \<noteq> None)
      in if res \<noteq> SYMSPI_SUCCESS then Some (res, xfer, d)
         else
           (case symspi_switch_strict d SYMSPI_STATE_IDLE SYMSPI_STATE_XFER_PREPARE of
              (False, d1) \<Rightarrow> Some (- FULL_DUPLEX_ERROR_NOT_READY env, xfer, d1)
            | (True, d1) \<Rightarrow>
                do { (res1, d2) \<leftarrow> symspi_try_to_error_sequence env d1 SYMSPI_SUCCESS;
                     if res1 \<noteq> SYMSPI_SUCCESS then Some (res1, xfer, d2)
                     else symspi_update_xfer_sequence env d2 xfer SYMSPI_STATE_XFER_PREPARE
                            force_size_change }))"
| "symspi_update_xfer_sequence env d xfer original_state force_size_change =
     (case xfer of
        None \<Rightarrow> Some (SYMSPI_SUCCESS, None, d)
      | Some x \<Rightarrow>
          (let (new_id, d1) = symspi_get_next_xfer_id d;
               x1 = x\<lparr>xfer_id := new_id, xfers_counter := 0\<rparr>;
               (res, d2) = symspi_replace_xfer env d1 x1 force_size_change
           in if res \<noteq> SYMSPI_SUCCESS
              then
                (let res1 = (if res \<noteq> - SYMSPI_ERROR_LOGICAL \<and> res \<noteq> - SYMSPI_ERROR_NO_MEMORY
                             then SYMSPI_SUCCESS else res)
                 in if original_state \<noteq> SYMSPI_STATE_ERROR
                    then do { (r, d3) \<leftarrow> symspi_to_idle_sequence env d2 original_state False res1;
                              Some (res1, Some x1, d3) }
                    else Some (res1, Some x1, d2))
              else Some (res, Some x1, d2)))"
| "symspi_to_idle_sequence env d original_state start_next_xfer internal_error =
     (let d1 = symspi_stop_timeout_timer_sync d;
          start1 = (start_next_xfer \<or> delayed_xfer_request d1);
          d2 = snd (symspi_switch_strict d1 original_state SYMSPI_STATE_IDLE)
      in do { (res, d3) \<leftarrow>
                (if original_state \<noteq> SYMSPI_STATE_ERROR
                 then symspi_try_to_error_sequence env d2 internal_error
                 else Some (SYMSPI_SUCCESS, d2));
              if res \<noteq> SYMSPI_SUCCESS then Some (res, d3)
              else
                (let start2 = (start1 \<or> delayed_xfer_request d3);
                     d4 = d3\<lparr>delayed_xfer_request := False\<rparr>
                 in if start2 \<or> symspi_is_their_request env d4
                    then symspi_data_xchange env d4 None False
                    else Some (SYMSPI_SUCCESS, d4)) })"
  by pat_completeness auto
termination
  by (relation "measure (\<lambda>a. case a of
          Inl (Inl (env, d, xfer, f)) \<Rightarrow> (case xfer of None \<Rightarrow> 3 | Some x \<Rightarrow> 11)
        | Inl (Inr (env, d, xfer, f)) \<Rightarrow> (case xfer of None \<Rightarrow> 2 | Some x \<Rightarrow> 10)
        | Inr (Inl (env, d, xfer, s, f)) \<Rightarrow> (case xfer of None \<Rightarrow> 1 | Some x \<Rightarrow> 9)
        | Inr (Inr (env, d, s, b, e)) \<Rightarrow> 4)")
     (auto split: option.splits)

declare symspi_data_xchange.simps [simp del]
declare symspi_idle_to_xfer_prepare_sequence.simps [simp del]
declare symspi_update_xfer_sequence.simps [simp del]
declare symspi_to_idle_sequence.simps [simp del]

subsection \<open>Error recovery\<close>




subsection \<open>Bus completion and interrupt glue\<close>

definition symspi_spi_xfer_done_callback ::
  "env \<Rightarrow> 'l::len symspi_dev \<Rightarrow> 'l symspi_dev option" where
  "symspi_spi_xfer_done_callback env d =
     (case symspi_switch_strict d SYMSPI_STATE_XFER SYMSPI_STATE_POSTPROCESSING of
        (False, d1) \<Rightarrow> symspi_error_handle env d1 (word_of_int SYMSPI_ERROR_LOGICAL) 0
      | (True, d1) \<Rightarrow>
          if last_error d1 \<noteq> SYMSPI_SUCCESS
          then symspi_error_handle env d1 (word_of_int (last_error d1)) 0
          else if spi_msg_status d1 \<noteq> 0
          then symspi_error_handle env d1 (word_of_int SYMSPI_ERROR_SPI) (spi_msg_status d1)
          else Some (symspi_schedule_work
                       (d1\<lparr>info := (info d1)\<lparr>xfers_done_ok := xfers_done_ok (info d1) + 1\<rparr>\<rparr>)
                       postprocessing_work))"

definition symspi_their_flag_drop_isr_sequence ::
  "env \<Rightarrow> 'l::len symspi_dev \<Rightarrow> 'l symspi_dev option" where
  "symspi_their_flag_drop_isr_sequence env d =
     (let counter = their_flag_drop_counter d + 1;
          d1 = d\<lparr>their_flag_drop_counter := counter\<rparr>
      in if counter = 1 \<and> spi_master_mode d1
         then Some (snd (symspi_try_leave_waiting_prev_sequence env d1))
         else if sint counter \<ge> 2
         then symspi_error_handle env d1 (word_of_int SYMSPI_ERROR_OTHER_SIDE) 0
         else if sint counter \<le> 0 then Some (log_event EvLogUnexpectedCounter d1)
         else Some d1)"

subsection \<open>Close and init\<close>

definition symspi_xfer_init_empty :: full_duplex_xfer where
  "symspi_xfer_init_empty =
     \<lparr>size_bytes = 0, data_tx = 0, tx_bytes = [], data_rx_buf = 0, xfers_counter = 0,
      xfer_id = SYMSPI_INITIAL_XFER_ID, consumer_data = 0, done_callback = 0,
      fail_callback = 0\<rparr>"

definition symspi_xfer_init_copy :: "env \<Rightarrow> full_duplex_xfer \<Rightarrow> int \<times> full_duplex_xfer" where
  "symspi_xfer_init_copy env source =
     (let target = symspi_do_resize_xfer env symspi_xfer_init_empty (size_bytes source)
      in if size_bytes target = 0 then (- SYMSPI_ERROR_NO_MEMORY, target)
         else (SYMSPI_SUCCESS,
               target\<lparr>tx_bytes := take (size_bytes source) (tx_bytes source),
                       done_callback := done_callback source,
                       consumer_data := consumer_data source\<rparr>))"

definition symspi_xfer_free :: "env \<Rightarrow> full_duplex_xfer \<Rightarrow> full_duplex_xfer" where
  "symspi_xfer_free env target =
     (symspi_do_resize_xfer env target 0)\<lparr>done_callback := 0, consumer_data := 0\<rparr>"

definition symspi_close_qpio_irqs :: "'l::len symspi_dev \<Rightarrow> 'l symspi_dev" where
  "symspi_close_qpio_irqs d =
     (if their_flag_irq_number d < 0 then d
      else (log_event EvFreeIrq d)\<lparr>their_flag_irq_number := - ENOLINK\<rparr>)"

text \<open>
  The cleanup of \<^verbatim>\<open>symspi_close\<close>, one function for each label; every stage
  falls through to the next.
\<close>

definition close_private_allocated :: "'l::len symspi_dev \<Rightarrow> 'l symspi_dev" where
  "close_private_allocated d = (log_event EvFreePrivate (d\<lparr>magic := 0\<rparr>))\<lparr>p := False\<rparr>"

definition close_xfer_created :: "env \<Rightarrow> 'l::len symspi_dev \<Rightarrow> 'l symspi_dev" where
  "close_xfer_created env d =
     close_private_allocated
       ((symspi_do_update_native_spi_xfer_data
           (d\<lparr>spi_msg_status := 0,
              current_xfer := symspi_xfer_free env (current_xfer d)\<rparr>))
        \<lparr>init_level := SYMSPI_INIT_LEVEL_PRIVATE_ALLOCATED\<rparr>)"

definition close_workqueue_init :: "env \<Rightarrow> 'l::len symspi_dev \<Rightarrow> 'l symspi_dev" where
  "close_workqueue_init env d =
     close_xfer_created env
       ((log_event EvCloseWorkqueue
           (symspi_cancel_work_sync
              (symspi_cancel_work_sync
                 (symspi_cancel_work_sync d xfer_work) postprocessing_work) recover_work))
        \<lparr>work_queue := False, init_level := SYMSPI_INIT_LEVEL_XFER_CREATED\<rparr>)"

definition close_gpio_irqs :: "env \<Rightarrow> 'l::len symspi_dev \<Rightarrow> 'l symspi_dev" where
  "close_gpio_irqs env d =
     close_workqueue_init env
       ((snd (symspi_switch_state_val_forced
                (symspi_stop_timeout_timer_sync
                   (symspi_our_flag_drop (symspi_close_qpio_irqs d)))
                SYMSPI_STATE_COLD))
        \<lparr>init_level := SYMSPI_INIT_LEVEL_WORKQUEUE_INIT\<rparr>)"

definition close_full :: "env \<Rightarrow> 'l::len symspi_dev \<Rightarrow> 'l symspi_dev" where
  "close_full env d =
     close_gpio_irqs env
       ((let d1 = log_event EvProcfsClose d
         in if state d1 = SYMSPI_STATE_XFER then log_event EvWaitCompletion d1 else d1)
        \<lparr>init_level := SYMSPI_INIT_LEVEL_GPIO_IRQS\<rparr>)"

text \<open>\<^verbatim>\<open>symspi_close\<close>: the return code and the device after the call.\<close>

definition symspi_close :: "env \<Rightarrow> 'l::len symspi_dev \<Rightarrow> int \<times> 'l symspi_dev" where
  "symspi_close env d =
     (if \<not> p d then (- ENODEV, d)
      else if magic d \<noteq> SYMSPI_PRIVATE_MAGIC then (- ENODEV, d)
      else if close_request d then (- EALREADY, d)
      else
        (let d1 = d\<lparr>close_request := True\<rparr>
         in if state d1 = SYMSPI_STATE_COLD then (SYMSPI_SUCCESS, d1)
            else if init_level d1 = SYMSPI_INIT_LEVEL_GPIO_IRQS
            then (SYMSPI_SUCCESS, close_gpio_irqs env d1)
            else if init_level d1 = SYMSPI_INIT_LEVEL_WORKQUEUE_INIT
            then (SYMSPI_SUCCESS, close_workqueue_init env d1)
            else if init_level d1 = SYMSPI_INIT_LEVEL_XFER_CREATED
            then (SYMSPI_SUCCESS, close_xfer_created env d1)
            else if init_level d1 = SYMSPI_INIT_LEVEL_PRIVATE_ALLOCATED
            then (SYMSPI_SUCCESS, close_private_allocated d1)
            else (SYMSPI_SUCCESS, close_full env d1)))"

definition zero_error_rec :: "'l::len symspi_error_rec" where
  "zero_error_rec =
     \<lparr>err_num = 0, total_count = 0, unreported_count = 0, last_report_time_msec = 0,
      last_occurence_time_msec = 0, exp_avg_interval_msec = 0, last_reported = False,
      err_per_sec_threshold = 0\<rparr>"

definition zero_info :: symspi_info where
  "zero_info =
     \<lparr>other_side_indicated_errors = 0, other_side_no_reaction_errors = 0,
      xfers_done_ok = 0, their_flag_edges = 0\<rparr>"

text \<open>
  \<^verbatim>\<open>__symspi_error_report_init\<close>: the fourteen records of the array, in the order
  of the \<^verbatim>\<open>SYMSPI_ERR_REC\<close> lines. (The fifteenth line of the source, for
  \<^verbatim>\<open>WORKQUEUE_INIT\<close>, addresses index 14 of an array of 14 records; what it
  overwrites depends on the layout of the structure and is no part of the
  ledger.)
\<close>

definition initial_error_recs :: "'l::len symspi_error_rec list" where
  "initial_error_recs =
     map (\<lambda>(n, t). zero_error_rec\<lparr>err_num := word_of_int n, err_per_sec_threshold := t\<rparr>)
       [(SYMSPI_ERROR_LOGICAL, 0), (SYMSPI_ERROR_XFER_SIZE_MISMATCH, 0),
        (SYMSPI_ERROR_XFER_SIZE_ZERO, 0), (SYMSPI_ERROR_NO_MEMORY, 0),
        (SYMSPI_ERROR_OTHER_SIDE, 5), (SYMSPI_ERROR_STATE, 0),
        (SYMSPI_ERROR_OVERLAP, 0), (SYMSPI_ERROR_SPI, 0),
        (SYMSPI_ERROR_NO_SPI, 0), (SYMSPI_ERROR_NO_GPIO, 0),
        (SYMSPI_ERROR_NO_XFER, 0), (SYMSPI_ERROR_IRQ_ACQUISITION, 0),
        (SYMSPI_ERROR_ISR_SETUP, 0), (SYMSPI_ERROR_WAIT_OTHER_SIDE, 5)]"

definition symspi_error_report_init :: "'l::len symspi_dev \<Rightarrow> 'l symspi_dev" where
  "symspi_error_report_init d = d\<lparr>errors := initial_error_recs\<rparr>"

text \<open>\<^verbatim>\<open>kzalloc\<close> of the private part: every private field is zero.\<close>

definition kzalloc_private_part :: "'l::len symspi_dev \<Rightarrow> 'l symspi_dev" where
  "kzalloc_private_part d =
     d\<lparr>p := True, next_xfer_id := 0,
       current_xfer := symspi_xfer_init_empty\<lparr>xfer_id := 0\<rparr>,
       spi_xfer := \<lparr>tx_buf = 0, rx_buf = 0, len = 0\<rparr>, spi_msg_status := 0,
       work_queue := False, state := SYMSPI_STATE_COLD, their_flag_drop_counter := 0,
       spi_master_mode := False, hardware_spi_rdy := False, their_flag_irq_number := 0,
       delayed_xfer_request := False, close_request := False, last_error := 0,
       magic := 0, errors := replicate 14 zero_error_rec, init_level := 0,
       info := zero_info\<rparr>"

definition symspi_init_gpio_irqs :: "env \<Rightarrow> 'l::len symspi_dev \<Rightarrow> int \<times> 'l symspi_dev" where
  "symspi_init_gpio_irqs env d =
     (let irqnr = gpiod_to_irq env
      in if irqnr < 0 then (- SYMSPI_ERROR_IRQ_ACQUISITION, d)
         else
           (let d1 = log_event (EvRequestIrq (\<not> hardware_spi_rdy d))
                       (d\<lparr>their_flag_irq_number := irqnr\<rparr>);
                ret = request_irq env
            in if ret < 0 then (- SYMSPI_ERROR_ISR_SETUP, d1\<lparr>their_flag_irq_number := ret\<rparr>)
               else (SYMSPI_SUCCESS, d1)))"

text \<open>
  \<^verbatim>\<open>symspi_init\<close>: the return code, the consumer's default xfer (the source writes
  its \<^verbatim>\<open>id\<close> and \<^verbatim>\<open>xfers_counter\<close>) and the device after the call. The role is
  fixed by \<^verbatim>\<open>SYMSPI_SPI_MASTER\<close>, which is \<^verbatim>\<open>true\<close>.
\<close>

definition symspi_init ::
  "env \<Rightarrow> 'l::len symspi_dev \<Rightarrow> full_duplex_xfer option
    \<Rightarrow> (int \<times> full_duplex_xfer option \<times> 'l symspi_dev) option" where
  "symspi_init env d default_xfer =
     (let res = symspi_verify_consumer_input d default_xfer True
      in if res \<noteq> SYMSPI_SUCCESS then Some (res, default_xfer, d)
      else if p d \<and> magic d = SYMSPI_PRIVATE_MAGIC then Some (SYMSPI_SUCCESS, default_xfer, d)
      else if \<not> kzalloc_private env
      then Some (- SYMSPI_ERROR_NO_MEMORY, default_xfer, snd (symspi_close env (d\<lparr>p := False\<rparr>)))
      else
        (case default_xfer of
           None \<Rightarrow> Some (res, default_xfer, d)
         | Some source \<Rightarrow>
        (let d1 = symspi_error_report_init
                    ((kzalloc_private_part d)
                     \<lparr>init_level := SYMSPI_INIT_LEVEL_PRIVATE_ALLOCATED,
                      magic := SYMSPI_PRIVATE_MAGIC, close_request := True,
                      last_error := SYMSPI_SUCCESS, next_xfer_id := SYMSPI_INITIAL_XFER_ID\<rparr>);
             (res1, copy) = symspi_xfer_init_copy env source;
             d2 = d1\<lparr>current_xfer := copy\<rparr>
         in if res1 < 0 then Some (res1, default_xfer, snd (symspi_close env d2))
         else
        (let (new_id, d3) =
               symspi_get_next_xfer_id
                 (d2\<lparr>init_level := SYMSPI_INIT_LEVEL_XFER_CREATED,
                     current_xfer := copy\<lparr>xfers_counter := 0\<rparr>\<rparr>);
             d4 = d3\<lparr>current_xfer := (current_xfer d3)\<lparr>xfer_id := new_id\<rparr>\<rparr>;
             default_xfer1 = Some (source\<lparr>xfers_counter := 0, xfer_id := new_id\<rparr>);
             d5 = log_event EvInitWorkqueue
                    (symspi_do_update_native_spi_xfer_data (d4\<lparr>spi_msg_status := 0\<rparr>))
         in if \<not> alloc_workqueue env
            then Some (- SYMSPI_ERROR_WORKQUEUE_INIT, default_xfer1, snd (symspi_close env d5))
         else
        (let d6 = symspi_our_flag_drop
                    ((store_their_flag_drop_counter
                        (d5\<lparr>work_queue := True,
                            init_level := SYMSPI_INIT_LEVEL_WORKQUEUE_INIT,
                            state := SYMSPI_STATE_COLD\<rparr>) 1)
                     \<lparr>spi_master_mode := True,
                      hardware_spi_rdy := spi_mode_ready d5\<rparr>);
             (res2, d7) = symspi_init_gpio_irqs env d6
         in if res2 \<noteq> SYMSPI_SUCCESS
            then Some (res2, default_xfer1, snd (symspi_close env d7))
         else
        (let d8 = (log_event EvProcfsInit (d7\<lparr>init_level := SYMSPI_INIT_LEVEL_GPIO_IRQS\<rparr>))
                  \<lparr>info := zero_info, init_level := SYMSPI_INIT_LEVEL_FULL,
                   close_request := False, state := SYMSPI_STATE_IDLE\<rparr>
         in if symspi_their_flag_is_set env d8
            then do { (r, d9) \<leftarrow> symspi_data_xchange env d8 None False;
                      Some (SYMSPI_SUCCESS, default_xfer1, d9) }
            else Some (SYMSPI_SUCCESS, default_xfer1, d8)))))))"

subsection \<open>Observations and the specification's formula\<close>

text \<open>How often a work item has been enqueued so far.\<close>

definition scheduled :: "symspi_work \<Rightarrow> 'l::len symspi_dev \<Rightarrow> nat" where
  "scheduled work d = count_list (events d) (EvScheduleWork work)"

text \<open>The device as the walk of the error handler finds it: counters bumped, report made.\<close>

definition error_handle_entry :: "env \<Rightarrow> 'l::len symspi_dev \<Rightarrow> 8 word \<Rightarrow> int \<Rightarrow> 'l symspi_dev" where
  "error_handle_entry env d k s =
     snd (symspi_error_report env
            (if uint k = SYMSPI_ERROR_OTHER_SIDE
             then d\<lparr>info := (info d)\<lparr>other_side_indicated_errors :=
                           other_side_indicated_errors (info d) + 1\<rparr>\<rparr>
             else if uint k = SYMSPI_ERROR_WAIT_OTHER_SIDE
             then d\<lparr>info := (info d)\<lparr>other_side_no_reaction_errors :=
                           other_side_no_reaction_errors (info d) + 1\<rparr>\<rparr>
             else d) k s)"


text \<open>
  The smoothed interval as the specification words it, over the natural
  numbers: \<open>\<alpha> = clamp(\<lfloor>50 \<Delta>t / 2000\<rfloor>, 3, 100)\<close> and
  \<open>interval' = max(((100 - \<alpha>) interval + \<alpha> \<Delta>t) / 100, 1)\<close>.
\<close>

definition spec_decay_percent :: "nat \<Rightarrow> nat" where
  "spec_decay_percent dt = max 3 (min 100 ((50 * dt) div 2000))"

definition spec_exp_avg_interval :: "nat \<Rightarrow> nat \<Rightarrow> nat" where
  "spec_exp_avg_interval interval dt =
     max (((100 - spec_decay_percent dt) * interval + spec_decay_percent dt * dt) div 100) 1"

subsection \<open>A concrete device\<close>

text \<open>
  A consumer xfer of 64 bytes, the answers of the outer layers on a quiet line,
  a device structure before \<^verbatim>\<open>symspi_init\<close>, and the same device in IDLE after
  \<^verbatim>\<open>symspi_init\<close> on a 64-bit kernel.
\<close>

definition example_xfer :: full_duplex_xfer where
  "example_xfer =
     \<lparr>size_bytes = 64, data_tx = 0x1000, tx_bytes = replicate 64 0, data_rx_buf = 0x2000,
      xfers_counter = 0, xfer_id = 0, consumer_data = 0, done_callback = 0x5000,
      fail_callback = 0\<rparr>"

definition example_small_xfer :: full_duplex_xfer where
  "example_small_xfer =
     \<lparr>size_bytes = 1, data_tx = 0x6000, tx_bytes = [0x2A], data_rx_buf = 0x7000,
      xfers_counter = 0, xfer_id = 0, consumer_data = 0, done_callback = 0x5000,
      fail_callback = 0\<rparr>"

definition example_env :: env where
  "example_env =
     \<lparr>FULL_DUPLEX_ERROR_NOT_READY = 2, their_flag_raw = False, spi_async_result = 0,
      now_msec = 5000, krealloc_tx = 0x3000, krealloc_rx = 0x4000, kzalloc_private = True,
      alloc_workqueue = True, gpiod_to_irq = 42, request_irq = 0,
      fail_callback_result = CbNull\<rparr>"

definition example_cold_dev :: "64 symspi_dev" where
  "example_cold_dev =
     \<lparr>xfer_accepted_callback = 0, spi = 0x100, spi_mode_ready = False,
      gpiod_our_flag = 0x200, gpiod_their_flag = 0x300, p = False, next_xfer_id = 0,
      current_xfer = symspi_xfer_init_empty\<lparr>xfer_id := 0\<rparr>,
      spi_xfer = \<lparr>tx_buf = 0, rx_buf = 0, len = 0\<rparr>, spi_msg_status = 0,
      work_queue = False, state = SYMSPI_STATE_COLD, their_flag_drop_counter = 0,
      spi_master_mode = False, hardware_spi_rdy = False, their_flag_irq_number = 0,
      delayed_xfer_request = False, close_request = False, last_error = 0, magic = 0,
      errors = [], init_level = 0, info = zero_info, events = []\<rparr>"

definition example_dev :: "64 symspi_dev" where
  "example_dev =
     \<lparr>xfer_accepted_callback = 0, spi = 0x100, spi_mode_ready = False,
      gpiod_our_flag = 0x200, gpiod_their_flag = 0x300, p = True, next_xfer_id = 2,
      current_xfer =
        \<lparr>size_bytes = 64, data_tx = 0x3000, tx_bytes = replicate 64 0, data_rx_buf = 0x4000,
         xfers_counter = 0, xfer_id = 1, consumer_data = 0, done_callback = 0x5000,
         fail_callback = 0\<rparr>,
      spi_xfer = \<lparr>tx_buf = 0x3000, rx_buf = 0x4000, len = 64\<rparr>, spi_msg_status = 0,
      work_queue = True, state = SYMSPI_STATE_IDLE, their_flag_drop_counter = 1,
      spi_master_mode = True, hardware_spi_rdy = False, their_flag_irq_number = 42,
      delayed_xfer_request = False, close_request = False, last_error = 0,
      magic = SYMSPI_PRIVATE_MAGIC, errors = initial_error_recs,
      init_level = SYMSPI_INIT_LEVEL_FULL, info = zero_info,
      events = [EvInitWorkqueue, EvDropCounterStore 1 SYMSPI_STATE_COLD, EvOurFlag False,
                EvRequestIrq True, EvProcfsInit]\<rparr>"

section \<open>Properties\<close>

subsection \<open>The concrete device\<close>

text \<open>On a quiet line \<^verbatim>\<open>symspi_init\<close> turns the cold example device into the idle one.\<close>

lemma example_dev_is_initialized:
  "symspi_init example_env example_cold_dev (Some example_xfer)
     = Some (SYMSPI_SUCCESS, Some (example_xfer\<lparr>xfers_counter := 0, xfer_id := 1\<rparr>), example_dev)"
  by (simp add: symspi_init_def symspi_verify_consumer_input_def example_cold_dev_def
        example_xfer_def example_env_def example_dev_def
        symspi_xfer_init_copy_def symspi_do_resize_xfer_def symspi_xfer_init_empty_def
        kzalloc_private_part_def symspi_error_report_init_def
          symspi_get_next_xfer_id_def symspi_do_update_native_spi_xfer_data_def
          symspi_our_flag_drop_def symspi_init_gpio_irqs_def symspi_their_flag_is_set_def
          store_their_flag_drop_counter_def log_event_def Let_def)

subsection \<open>The state controller under the closing latch\<close>

lemma switch_strict_closing_refused:
  "close_request d \<Longrightarrow> e \<noteq> SYMSPI_STATE_XFER \<or> t = SYMSPI_STATE_XFER \<Longrightarrow>
   symspi_switch_strict d e t = (False, d)"
  by (simp add: symspi_switch_strict_def symspi_is_closing_def)

lemma switch_strict_open:
  "\<not> close_request d \<Longrightarrow>
   symspi_switch_strict d e t = (if state d = e then (True, d\<lparr>state := t\<rparr>) else (False, d))"
  by (simp add: symspi_switch_strict_def symspi_is_closing_def)

text \<open>
  C4. While the closing latch is set, \<^verbatim>\<open>symspi_switch_strict\<close> returns false on
  every call. A call with expected state other than XFER, or with destination
  XFER, leaves the device as it is. A call with expected state XFER and another
  destination performs the compare-and-swap and fires the leave-XFER completion.
  Hence the state word changes only from XFER to a destination other than XFER.
\<close>

theorem switch_strict_while_closing:
  assumes "close_request d"
  shows "symspi_switch_strict d expected_state dst_state =
           (False,
            if expected_state = SYMSPI_STATE_XFER \<and> dst_state \<noteq> SYMSPI_STATE_XFER
            then log_event EvComplete
                   (if state d = SYMSPI_STATE_XFER then d\<lparr>state := dst_state\<rparr> else d)
            else d)
         \<and> state (snd (symspi_switch_strict d expected_state dst_state)) =
           (if state d = SYMSPI_STATE_XFER \<and> expected_state = SYMSPI_STATE_XFER
               \<and> dst_state \<noteq> SYMSPI_STATE_XFER
            then dst_state else state d)"
  using assms by (auto simp: symspi_switch_strict_def symspi_is_closing_def log_event_def)

theorem switch_strict_while_closing_witness:
  "close_request (example_dev\<lparr>state := SYMSPI_STATE_XFER, close_request := True\<rparr>)
   \<and> symspi_switch_strict (example_dev\<lparr>state := SYMSPI_STATE_XFER, close_request := True\<rparr>)
        SYMSPI_STATE_XFER SYMSPI_STATE_POSTPROCESSING =
       (False, example_dev\<lparr>state := SYMSPI_STATE_POSTPROCESSING, close_request := True,
                          events := events example_dev @ [EvComplete]\<rparr>)
   \<and> symspi_switch_strict (example_dev\<lparr>state := SYMSPI_STATE_XFER, close_request := True\<rparr>)
        SYMSPI_STATE_IDLE SYMSPI_STATE_XFER_PREPARE =
       (False, example_dev\<lparr>state := SYMSPI_STATE_XFER, close_request := True\<rparr>)"
  using switch_strict_while_closing
          [of "example_dev\<lparr>state := SYMSPI_STATE_XFER, close_request := True\<rparr>"
              SYMSPI_STATE_XFER SYMSPI_STATE_POSTPROCESSING]
        switch_strict_while_closing
          [of "example_dev\<lparr>state := SYMSPI_STATE_XFER, close_request := True\<rparr>"
              SYMSPI_STATE_IDLE SYMSPI_STATE_XFER_PREPARE]
  by (simp add: example_dev_def log_event_def)

subsection \<open>The error handler\<close>

lemma error_walk_closing:
  "close_request d \<Longrightarrow>
   switch_strict_any d
     [(SYMSPI_STATE_IDLE, SYMSPI_STATE_ERROR),
      (SYMSPI_STATE_XFER_PREPARE, SYMSPI_STATE_ERROR),
      (SYMSPI_STATE_WAITING_PREV, SYMSPI_STATE_ERROR),
      (SYMSPI_STATE_WAITING_RDY, SYMSPI_STATE_ERROR),
      (SYMSPI_STATE_POSTPROCESSING, SYMSPI_STATE_ERROR)] = (False, d)"
  by (simp add: switch_strict_closing_refused)

lemma error_handle_loop_closing_aux:
  assumes "error_handle_loop d k = Some y"
  shows "\<not> close_request d"
proof (rule error_handle_loop.raw_induct
         [where P = "\<lambda>d k y. \<not> close_request d", OF _ assms])
  fix f :: "'a symspi_dev \<Rightarrow> 8 word \<Rightarrow> 'a symspi_dev option" and d k y
  assume IH: "\<And>d k y. f d k = Some y \<Longrightarrow> \<not> close_request d"
  assume body:
    "(let r1 = switch_strict_any d
                 [(SYMSPI_STATE_IDLE, SYMSPI_STATE_ERROR),
                  (SYMSPI_STATE_XFER_PREPARE, SYMSPI_STATE_ERROR),
                  (SYMSPI_STATE_WAITING_PREV, SYMSPI_STATE_ERROR),
                  (SYMSPI_STATE_WAITING_RDY, SYMSPI_STATE_ERROR),
                  (SYMSPI_STATE_POSTPROCESSING, SYMSPI_STATE_ERROR)]
      in if fst r1
         then Some (symspi_schedule_work ((snd r1)\<lparr>last_error := uint k\<rparr>) recover_work)
         else
     (let r2 = symspi_switch_strict (snd r1) SYMSPI_STATE_ERROR SYMSPI_STATE_ERROR
      in if fst r2 then Some (snd r2)
         else
     (let r3 = symspi_switch_strict (snd r2) SYMSPI_STATE_XFER SYMSPI_STATE_XFER
      in if fst r3
         then Some (error_handle_secondary ((snd r3)\<lparr>last_error := uint k\<rparr>))
         else
     (let r4 = symspi_switch_strict (snd r3) SYMSPI_STATE_COLD SYMSPI_STATE_COLD
      in if fst r4 then Some (snd r4)
         else f (snd r4) k)))) = Some y"
  show "\<not> close_request d"
  proof
    assume c: "close_request d"
    from body have "f d k = Some y"
      by (simp add: error_walk_closing [OF c] switch_strict_closing_refused [OF c])
    from IH [OF this] c show False by simp
  qed
qed

lemma error_handle_loop_closing:
  "close_request d \<Longrightarrow> error_handle_loop d k = None"
  using error_handle_loop_closing_aux [of d k] by (cases "error_handle_loop d k") auto

lemma error_handle_loop_open:
  "\<not> close_request d \<Longrightarrow>
   error_handle_loop d k =
     Some (if state d \<in> {SYMSPI_STATE_IDLE, SYMSPI_STATE_XFER_PREPARE, SYMSPI_STATE_WAITING_PREV,
                         SYMSPI_STATE_WAITING_RDY, SYMSPI_STATE_POSTPROCESSING}
           then d\<lparr>state := SYMSPI_STATE_ERROR, last_error := uint k,
                  events := events d @ [EvScheduleWork recover_work]\<rparr>
           else if state d = SYMSPI_STATE_XFER then d\<lparr>last_error := uint k\<rparr>
           else d)"
  apply (subst error_handle_loop.simps)
  apply (cases "state d")
  apply (simp_all add: switch_strict_open error_handle_secondary_def symspi_schedule_work_def log_event_def)
  done

lemma error_report_fields:
  "state (snd (symspi_error_report env d k s)) = state d"
  "close_request (snd (symspi_error_report env d k s)) = close_request d"
  "last_error (snd (symspi_error_report env d k s)) = last_error d"
  "p (snd (symspi_error_report env d k s)) = p d"
  "magic (snd (symspi_error_report env d k s)) = magic d"
  "their_flag_drop_counter (snd (symspi_error_report env d k s)) = their_flag_drop_counter d"
  "scheduled w (snd (symspi_error_report env d k s)) = scheduled w d"
  by (simp_all add: symspi_error_report_def Let_def log_event_def scheduled_def
      split: option.split)

lemma error_handle_unfold:
  "uint k \<noteq> 0 \<Longrightarrow>
   symspi_error_handle env d k s = error_handle_loop (error_handle_entry env d k s) k"
  by (simp add: symspi_error_handle_def error_handle_entry_def Let_def split: prod.split)

lemma scheduled_info_update:
  "scheduled w (d\<lparr>info := i\<rparr>) = scheduled w d"
  by (simp add: scheduled_def)

lemma error_handle_entry_fields:
  "state (error_handle_entry env d k s) = state d"
  "close_request (error_handle_entry env d k s) = close_request d"
  "last_error (error_handle_entry env d k s) = last_error d"
  "p (error_handle_entry env d k s) = p d"
  "magic (error_handle_entry env d k s) = magic d"
  "their_flag_drop_counter (error_handle_entry env d k s) = their_flag_drop_counter d"
  "scheduled w (error_handle_entry env d k s) = scheduled w d"
  by (simp_all add: error_handle_entry_def error_report_fields scheduled_info_update)

lemma error_handle_closing:
  "close_request d \<Longrightarrow> uint k \<noteq> 0 \<Longrightarrow> symspi_error_handle env d k s = None"
  by (simp add: error_handle_unfold error_handle_loop_closing error_handle_entry_fields)

lemma error_handle_open:
  "\<not> close_request d \<Longrightarrow> uint k \<noteq> 0 \<Longrightarrow>
   symspi_error_handle env d k s =
     Some (let e = error_handle_entry env d k s in
           if state d \<in> {SYMSPI_STATE_IDLE, SYMSPI_STATE_XFER_PREPARE, SYMSPI_STATE_WAITING_PREV,
                         SYMSPI_STATE_WAITING_RDY, SYMSPI_STATE_POSTPROCESSING}
           then e\<lparr>state := SYMSPI_STATE_ERROR, last_error := uint k,
                  events := events e @ [EvScheduleWork recover_work]\<rparr>
           else if state d = SYMSPI_STATE_XFER then e\<lparr>last_error := uint k\<rparr>
           else e)"
  by (simp add: error_handle_unfold error_handle_loop_open error_handle_entry_fields Let_def)

lemma error_handle_success_kind:
  "uint k = 0 \<Longrightarrow> symspi_error_handle env d k s = Some d"
  by (simp add: symspi_error_handle_def)

text \<open>
  Without the closing latch the handler does what its comments describe. A call
  with a kind other than success returns, and: from IDLE,
  XFER_PREPARE, WAITING_PREV, WAITING_RDY or POSTPROCESSING the state is switched
  to ERROR, the kind is recorded as last error and the recovery work is enqueued
  once; from XFER the kind is recorded and nothing else changes; from COLD or
  ERROR neither the state nor the last error changes and nothing is enqueued.
  The second switch of the XFER branch, whatever device it meets, enqueues the
  recovery exactly when that device is in POSTPROCESSING (and not closing),
  switching it to ERROR.
\<close>

lemma error_handle_not_closing:
  assumes "\<not> close_request d" and "uint err_no \<noteq> SYMSPI_SUCCESS"
  shows "\<exists>d'. symspi_error_handle env d err_no sub_error_no = Some d'
          \<and> (if state d \<in> {SYMSPI_STATE_IDLE, SYMSPI_STATE_XFER_PREPARE,
                            SYMSPI_STATE_WAITING_PREV, SYMSPI_STATE_WAITING_RDY,
                            SYMSPI_STATE_POSTPROCESSING}
             then state d' = SYMSPI_STATE_ERROR \<and> last_error d' = uint err_no
                  \<and> scheduled recover_work d' = scheduled recover_work d + 1
             else if state d = SYMSPI_STATE_XFER
             then state d' = SYMSPI_STATE_XFER \<and> last_error d' = uint err_no
                  \<and> scheduled recover_work d' = scheduled recover_work d
             else state d' = state d \<and> last_error d' = last_error d
                  \<and> scheduled recover_work d' = scheduled recover_work d)
          \<and> error_handle_secondary x =
              (if state x = SYMSPI_STATE_POSTPROCESSING \<and> \<not> close_request x
               then symspi_schedule_work (x\<lparr>state := SYMSPI_STATE_ERROR\<rparr>) recover_work
               else x)"
proof -
  have sec: "error_handle_secondary x =
              (if state x = SYMSPI_STATE_POSTPROCESSING \<and> \<not> close_request x
               then symspi_schedule_work (x\<lparr>state := SYMSPI_STATE_ERROR\<rparr>) recover_work
               else x)"
    by (cases "close_request x")
       (simp_all add: error_handle_secondary_def switch_strict_open
          switch_strict_closing_refused)
  have sch: "scheduled recover_work (error_handle_entry env d err_no sub_error_no)
               = scheduled recover_work d"
    by (rule error_handle_entry_fields)
  show ?thesis
    using sch
    by (simp add: error_handle_open [OF assms] sec Let_def error_handle_entry_fields
          scheduled_def)
qed

lemma error_handle_not_closing_example:
  "\<not> close_request example_dev \<and> uint (32 :: 8 word) \<noteq> SYMSPI_SUCCESS
   \<and> (\<exists>d'. symspi_error_handle example_env example_dev 32 0 = Some d'
          \<and> state d' = SYMSPI_STATE_ERROR \<and> last_error d' = 32
          \<and> scheduled recover_work d' = scheduled recover_work example_dev + 1)"
proof -
  have h: "\<not> close_request example_dev" "state example_dev = SYMSPI_STATE_IDLE"
    by (simp_all add: example_dev_def)
  have k: "uint (32 :: 8 word) \<noteq> SYMSPI_SUCCESS" by simp
  show ?thesis
    using error_handle_not_closing [OF h(1) k, of example_env 0 example_dev] h k by auto
qed

text \<open>
  C3 (what the code does under the closing latch). With the latch set, every
  strict switch the handler tries is refused: the five switches to ERROR, and
  also the tests \<^verbatim>\<open>SYMSPI_SWITCH_STRICT(ERROR, ERROR)\<close>,
  \<^verbatim>\<open>SYMSPI_SWITCH_STRICT(XFER, XFER)\<close> and \<^verbatim>\<open>SYMSPI_SWITCH_STRICT(COLD, COLD)\<close> by
  which the loop recognises the states it leaves alone. So, whatever the state,
  a call with a kind other than success switches nothing to ERROR and never
  leaves the \<^verbatim>\<open>while (true)\<close> loop, although the handler "must be callable from
  ISR context" and only means to "spin a bit".
\<close>

theorem error_handle_closing_spins:
  assumes "close_request d" and "uint err_no \<noteq> SYMSPI_SUCCESS"
  shows "symspi_error_handle env d err_no sub_error_no = None
         \<and> switch_strict_any d
               [(SYMSPI_STATE_IDLE, SYMSPI_STATE_ERROR),
                (SYMSPI_STATE_XFER_PREPARE, SYMSPI_STATE_ERROR),
                (SYMSPI_STATE_WAITING_PREV, SYMSPI_STATE_ERROR),
                (SYMSPI_STATE_WAITING_RDY, SYMSPI_STATE_ERROR),
                (SYMSPI_STATE_POSTPROCESSING, SYMSPI_STATE_ERROR)] = (False, d)
         \<and> symspi_switch_strict d SYMSPI_STATE_ERROR SYMSPI_STATE_ERROR = (False, d)
         \<and> symspi_switch_strict d SYMSPI_STATE_XFER SYMSPI_STATE_XFER = (False, d)
         \<and> symspi_switch_strict d SYMSPI_STATE_COLD SYMSPI_STATE_COLD = (False, d)"
  using assms
  by (simp add: error_handle_closing error_walk_closing switch_strict_closing_refused)

theorem error_handle_closing_spins_witness:
  "close_request (example_dev\<lparr>close_request := True\<rparr>)
   \<and> uint (32 :: 8 word) \<noteq> SYMSPI_SUCCESS
   \<and> state (example_dev\<lparr>close_request := True\<rparr>) = SYMSPI_STATE_IDLE
   \<and> symspi_error_handle example_env (example_dev\<lparr>close_request := True\<rparr>) 32 0 = None
   \<and> symspi_error_handle example_env
         (example_dev\<lparr>close_request := True, state := SYMSPI_STATE_ERROR\<rparr>) 32 0 = None
   \<and> symspi_error_handle example_env
         (example_dev\<lparr>close_request := True, state := SYMSPI_STATE_COLD\<rparr>) 32 0 = None"
proof -
  have k: "uint (32 :: 8 word) \<noteq> SYMSPI_SUCCESS" by simp
  have s: "state example_dev = SYMSPI_STATE_IDLE" by (simp add: example_dev_def)
  show ?thesis
    using error_handle_closing_spins
            [of "example_dev\<lparr>close_request := True\<rparr>" 32 example_env 0]
          error_handle_closing_spins
            [of "example_dev\<lparr>close_request := True, state := SYMSPI_STATE_ERROR\<rparr>" 32
                example_env 0]
          error_handle_closing_spins
            [of "example_dev\<lparr>close_request := True, state := SYMSPI_STATE_COLD\<rparr>" 32
                example_env 0]
          k s
    by simp
qed

subsection \<open>The bus-completion callback\<close>

lemma error_handle_returns:
  "\<not> close_request d \<Longrightarrow> \<exists>d'. symspi_error_handle env d k s = Some d'"
  by (cases "uint k = 0") (simp_all add: error_handle_success_kind error_handle_open)

text \<open>
  Without the closing latch the callback does what the specification says.
  Every invocation returns, and: if the state is not XFER (the
  switch XFER to POSTPROCESSING fails) it hands the logical error to the error
  handler; otherwise the state is POSTPROCESSING and, if a last error is
  recorded, that error goes to the handler; otherwise, if the status of the SPI
  message is not zero, the SPI error goes to the handler with the status as
  sub-code; otherwise the counter of good transfers is incremented and the
  postprocessing work is enqueued.
\<close>

lemma spi_xfer_done_callback_not_closing:
  assumes "\<not> close_request d"
  shows "(\<exists>d'. symspi_spi_xfer_done_callback env d = Some d')
         \<and> symspi_spi_xfer_done_callback env d =
             (if state d \<noteq> SYMSPI_STATE_XFER
              then symspi_error_handle env d (word_of_int SYMSPI_ERROR_LOGICAL) 0
              else if last_error d \<noteq> SYMSPI_SUCCESS
              then symspi_error_handle env (d\<lparr>state := SYMSPI_STATE_POSTPROCESSING\<rparr>)
                     (word_of_int (last_error d)) 0
              else if spi_msg_status d \<noteq> 0
              then symspi_error_handle env (d\<lparr>state := SYMSPI_STATE_POSTPROCESSING\<rparr>)
                     (word_of_int SYMSPI_ERROR_SPI) (spi_msg_status d)
              else Some (symspi_schedule_work
                           (d\<lparr>state := SYMSPI_STATE_POSTPROCESSING,
                              info := (info d)\<lparr>xfers_done_ok := xfers_done_ok (info d) + 1\<rparr>\<rparr>)
                           postprocessing_work))"
proof -
  have eq: "symspi_spi_xfer_done_callback env d =
             (if state d \<noteq> SYMSPI_STATE_XFER
              then symspi_error_handle env d (word_of_int SYMSPI_ERROR_LOGICAL) 0
              else if last_error d \<noteq> SYMSPI_SUCCESS
              then symspi_error_handle env (d\<lparr>state := SYMSPI_STATE_POSTPROCESSING\<rparr>)
                     (word_of_int (last_error d)) 0
              else if spi_msg_status d \<noteq> 0
              then symspi_error_handle env (d\<lparr>state := SYMSPI_STATE_POSTPROCESSING\<rparr>)
                     (word_of_int SYMSPI_ERROR_SPI) (spi_msg_status d)
              else Some (symspi_schedule_work
                           (d\<lparr>state := SYMSPI_STATE_POSTPROCESSING,
                              info := (info d)\<lparr>xfers_done_ok := xfers_done_ok (info d) + 1\<rparr>\<rparr>)
                           postprocessing_work))"
    using assms by (simp add: symspi_spi_xfer_done_callback_def switch_strict_open)
  have c: "\<not> close_request (d\<lparr>state := SYMSPI_STATE_POSTPROCESSING\<rparr>)"
    using assms by simp
  have ret: "\<exists>d'. symspi_spi_xfer_done_callback env d = Some d'"
    unfolding eq
    using error_handle_returns [OF assms] error_handle_returns [OF c]
    by simp
  from ret eq show ?thesis by blast
qed

lemma spi_xfer_done_callback_not_closing_example:
  "\<not> close_request (example_dev\<lparr>state := SYMSPI_STATE_XFER\<rparr>)
   \<and> symspi_spi_xfer_done_callback example_env (example_dev\<lparr>state := SYMSPI_STATE_XFER\<rparr>) =
       Some (example_dev\<lparr>state := SYMSPI_STATE_POSTPROCESSING,
                         info := zero_info\<lparr>xfers_done_ok := 1\<rparr>,
                         events := events example_dev @ [EvScheduleWork postprocessing_work]\<rparr>)"
  using spi_xfer_done_callback_not_closing
          [of "example_dev\<lparr>state := SYMSPI_STATE_XFER\<rparr>" example_env]
  by (simp add: example_dev_def symspi_schedule_work_def log_event_def zero_info_def)

text \<open>
  C2 (what the code does under the closing latch). With the latch set and the
  device in XFER, which is the case \<^verbatim>\<open>symspi_close\<close> waits for, the compare-and-swap
  of the callback succeeds: the state becomes POSTPROCESSING and the completion
  is fired. Yet \<^verbatim>\<open>symspi_switch_strict\<close> answers false, so the callback takes the
  branch of the failed switch: it hands the logical error to the error handler,
  from which it does not return, and neither the last error nor the status of
  the message is looked at, nor is the postprocessing enqueued.
\<close>

theorem spi_xfer_done_callback_closing:
  assumes "close_request d" and "state d = SYMSPI_STATE_XFER"
  shows "symspi_switch_strict d SYMSPI_STATE_XFER SYMSPI_STATE_POSTPROCESSING
           = (False, log_event EvComplete (d\<lparr>state := SYMSPI_STATE_POSTPROCESSING\<rparr>))
         \<and> symspi_spi_xfer_done_callback env d
           = symspi_error_handle env
               (log_event EvComplete (d\<lparr>state := SYMSPI_STATE_POSTPROCESSING\<rparr>))
               (word_of_int SYMSPI_ERROR_LOGICAL) 0
         \<and> symspi_spi_xfer_done_callback env d = None"
proof -
  have sw: "symspi_switch_strict d SYMSPI_STATE_XFER SYMSPI_STATE_POSTPROCESSING
              = (False, log_event EvComplete (d\<lparr>state := SYMSPI_STATE_POSTPROCESSING\<rparr>))"
    using assms by (simp add: symspi_switch_strict_def symspi_is_closing_def)
  have c: "close_request (log_event EvComplete (d\<lparr>state := SYMSPI_STATE_POSTPROCESSING\<rparr>))"
    using assms(1) by (simp add: log_event_def)
  have k: "uint (word_of_int SYMSPI_ERROR_LOGICAL :: 8 word) \<noteq> 0" by simp
  have cb: "symspi_spi_xfer_done_callback env d
              = symspi_error_handle env
                  (log_event EvComplete (d\<lparr>state := SYMSPI_STATE_POSTPROCESSING\<rparr>))
                  (word_of_int SYMSPI_ERROR_LOGICAL) 0"
    by (simp add: symspi_spi_xfer_done_callback_def sw)
  from sw cb error_handle_closing [OF c k, of env 0] show ?thesis by simp
qed

theorem spi_xfer_done_callback_closing_witness:
  "close_request (example_dev\<lparr>state := SYMSPI_STATE_XFER, close_request := True\<rparr>)
   \<and> state (example_dev\<lparr>state := SYMSPI_STATE_XFER, close_request := True\<rparr>)
       = SYMSPI_STATE_XFER
   \<and> last_error (example_dev\<lparr>state := SYMSPI_STATE_XFER, close_request := True\<rparr>)
       = SYMSPI_SUCCESS
   \<and> spi_msg_status (example_dev\<lparr>state := SYMSPI_STATE_XFER, close_request := True\<rparr>) = 0
   \<and> state (snd (symspi_switch_strict
                 (example_dev\<lparr>state := SYMSPI_STATE_XFER, close_request := True\<rparr>)
                 SYMSPI_STATE_XFER SYMSPI_STATE_POSTPROCESSING)) = SYMSPI_STATE_POSTPROCESSING
   \<and> symspi_spi_xfer_done_callback example_env
       (example_dev\<lparr>state := SYMSPI_STATE_XFER, close_request := True\<rparr>) = None"
proof -
  let ?d = "example_dev\<lparr>state := SYMSPI_STATE_XFER, close_request := True\<rparr>"
  have h: "last_error ?d = SYMSPI_SUCCESS" "spi_msg_status ?d = 0"
    by (simp_all add: example_dev_def)
  have a: "close_request ?d" "state ?d = SYMSPI_STATE_XFER"
    by simp_all
  note t = spi_xfer_done_callback_closing [OF a, of example_env]
  from t have sw: "state (snd (symspi_switch_strict ?d SYMSPI_STATE_XFER
                                 SYMSPI_STATE_POSTPROCESSING)) = SYMSPI_STATE_POSTPROCESSING"
    by (simp add: log_event_def)
  from t have cb: "symspi_spi_xfer_done_callback example_env ?d = None"
    by blast
  from h a sw cb show ?thesis by blast
qed

subsection \<open>Replacing the current xfer\<close>

text \<open>
  C7 (as the code has it). For a new xfer of non-zero size whose TX buffer does
  not overlap the current one and whose size differs from the current size:
  unless the state is XFER or the size change is forced, \<^verbatim>\<open>symspi_replace_xfer\<close>
  fails with the size-mismatch error and leaves the device as it is (so it does
  in ERROR); in XFER, or when forced, the change is applied: with both
  reallocations granted the call succeeds and the current xfer and the native
  transfer have the new size, otherwise it fails for lack of memory.
\<close>

theorem replace_xfer_size_change:
  assumes "size_bytes new_xfer \<noteq> 0"
    and "\<not> regions_overlap (data_tx (current_xfer d)) (size_bytes (current_xfer d))
           (data_tx new_xfer) (size_bytes new_xfer)"
    and "size_bytes (current_xfer d) \<noteq> size_bytes new_xfer"
  shows "(if state d \<noteq> SYMSPI_STATE_XFER \<and> \<not> force_size_change
          then symspi_replace_xfer env d new_xfer force_size_change
                 = (- SYMSPI_ERROR_XFER_SIZE_MISMATCH, d)
          else if krealloc_tx env = 0 \<or> krealloc_rx env = 0
          then fst (symspi_replace_xfer env d new_xfer force_size_change)
                 = - SYMSPI_ERROR_NO_MEMORY
               \<and> size_bytes (current_xfer (snd (symspi_replace_xfer env d new_xfer
                                                 force_size_change))) = 0
          else fst (symspi_replace_xfer env d new_xfer force_size_change) = SYMSPI_SUCCESS
               \<and> size_bytes (current_xfer (snd (symspi_replace_xfer env d new_xfer
                                                 force_size_change))) = size_bytes new_xfer
               \<and> len (spi_xfer (snd (symspi_replace_xfer env d new_xfer
                                        force_size_change))) = size_bytes new_xfer
               \<and> tx_bytes (current_xfer (snd (symspi_replace_xfer env d new_xfer
                                                force_size_change)))
                   = take (size_bytes new_xfer) (tx_bytes new_xfer))"
  using assms
  by (auto simp: symspi_replace_xfer_def Let_def symspi_do_resize_xfer_def
        symspi_do_update_native_spi_xfer_data_def)

theorem replace_xfer_size_change_witness:
  "size_bytes example_small_xfer \<noteq> 0
   \<and> \<not> regions_overlap (data_tx (current_xfer (example_dev\<lparr>state := SYMSPI_STATE_XFER\<rparr>)))
          (size_bytes (current_xfer (example_dev\<lparr>state := SYMSPI_STATE_XFER\<rparr>)))
          (data_tx example_small_xfer) (size_bytes example_small_xfer)
   \<and> size_bytes (current_xfer (example_dev\<lparr>state := SYMSPI_STATE_XFER\<rparr>))
        \<noteq> size_bytes example_small_xfer
   \<and> fst (symspi_replace_xfer example_env (example_dev\<lparr>state := SYMSPI_STATE_XFER\<rparr>)
             example_small_xfer False) = SYMSPI_SUCCESS
   \<and> size_bytes (current_xfer (snd (symspi_replace_xfer example_env
             (example_dev\<lparr>state := SYMSPI_STATE_XFER\<rparr>) example_small_xfer False))) = 1"
  using replace_xfer_size_change
          [of example_small_xfer "example_dev\<lparr>state := SYMSPI_STATE_XFER\<rparr>" False example_env]
  by (simp add: example_dev_def example_small_xfer_def example_env_def regions_overlap_def)

text \<open>
  In ERROR, without force, a 1-byte xfer against the 64-byte current xfer is
  refused with the size-mismatch error.
\<close>

theorem replace_xfer_error_state_counterexample:
  "symspi_replace_xfer example_env (example_dev\<lparr>state := SYMSPI_STATE_ERROR\<rparr>)
     example_small_xfer False
   = (- SYMSPI_ERROR_XFER_SIZE_MISMATCH, example_dev\<lparr>state := SYMSPI_STATE_ERROR\<rparr>)"
  by (simp add: symspi_replace_xfer_def example_dev_def example_small_xfer_def
        regions_overlap_def Let_def)

subsection \<open>Falling edges of the peer's flag\<close>

lemma try_leave_waiting_prev_master_state:
  "spi_master_mode d \<Longrightarrow>
   state (snd (symspi_try_leave_waiting_prev_sequence env d)) =
     (if state d = SYMSPI_STATE_WAITING_PREV \<and> \<not> close_request d
      then (if hardware_spi_rdy d \<or> (their_flag_drop_counter d = 1 \<and> their_flag_raw env)
            then SYMSPI_STATE_XFER else SYMSPI_STATE_WAITING_RDY)
      else state d)"
  by (cases "close_request d")
     (auto simp: symspi_try_leave_waiting_prev_sequence_def switch_strict_open
        switch_strict_closing_refused symspi_do_xfer_def store_their_flag_drop_counter_def symspi_stop_timeout_timer_def
        symspi_restart_timeout_timer_def symspi_is_their_request_def
        symspi_their_flag_is_set_def symspi_try_leave_waiting_rdy_sequence_def
        log_event_def Let_def)

text \<open>
  C6 (as the code has it). The handler of a falling edge of the peer's flag
  increments the drop counter and then: if the new value is 1 and the device is
  master, it attempts to leave WAITING_PREV (the state moves on exactly when it
  was WAITING_PREV and the device is not closing); otherwise, if the new value
  is at least 2, it hands the other-side error to the error handler; otherwise,
  if the new value is at most 0, it only writes a message: no error is handed
  to the handler, and nothing but the counter changes.
\<close>

theorem their_flag_drop_isr_cases:
  "(let counter = their_flag_drop_counter d + 1;
        d1 = d\<lparr>their_flag_drop_counter := counter\<rparr>;
        r = symspi_their_flag_drop_isr_sequence env d
    in if counter = 1 \<and> spi_master_mode d
       then r = Some (snd (symspi_try_leave_waiting_prev_sequence env d1))
            \<and> state (snd (symspi_try_leave_waiting_prev_sequence env d1)) =
                (if state d = SYMSPI_STATE_WAITING_PREV \<and> \<not> close_request d
                 then (if hardware_spi_rdy d \<or> their_flag_raw env
                       then SYMSPI_STATE_XFER else SYMSPI_STATE_WAITING_RDY)
                 else state d)
       else if 2 \<le> sint counter
       then r = symspi_error_handle env d1 (word_of_int SYMSPI_ERROR_OTHER_SIDE) 0
       else if sint counter \<le> 0
       then r = Some (d1\<lparr>events := events d @ [EvLogUnexpectedCounter]\<rparr>)
       else r = Some d1)"
  by (simp add: symspi_their_flag_drop_isr_sequence_def Let_def log_event_def
        try_leave_waiting_prev_master_state)

theorem their_flag_drop_isr_cases_witness:
  "symspi_their_flag_drop_isr_sequence example_env
     (example_dev\<lparr>state := SYMSPI_STATE_WAITING_PREV, their_flag_drop_counter := 0\<rparr>)
   = Some (snd (symspi_try_leave_waiting_prev_sequence example_env
                  (example_dev\<lparr>state := SYMSPI_STATE_WAITING_PREV,
                               their_flag_drop_counter := 1\<rparr>)))
   \<and> state (snd (symspi_try_leave_waiting_prev_sequence example_env
                  (example_dev\<lparr>state := SYMSPI_STATE_WAITING_PREV,
                               their_flag_drop_counter := 1\<rparr>)))
       = SYMSPI_STATE_WAITING_RDY"
  using their_flag_drop_isr_cases
          [of "example_dev\<lparr>state := SYMSPI_STATE_WAITING_PREV, their_flag_drop_counter := 0\<rparr>"
              example_env]
  by (simp add: example_dev_def example_env_def Let_def)

text \<open>
  A counter at the largest \<^verbatim>\<open>int\<close> wraps to the smallest; the handler then only
  writes its message: the idle device stays idle with no last error, whereas the
  logical error handed to the error handler would have switched it to ERROR.
\<close>

theorem their_flag_drop_isr_counterexample:
  "symspi_their_flag_drop_isr_sequence example_env
     (example_dev\<lparr>their_flag_drop_counter := 0x7FFFFFFF\<rparr>)
   = Some (example_dev\<lparr>their_flag_drop_counter := 0x80000000,
                       events := events example_dev @ [EvLogUnexpectedCounter]\<rparr>)
   \<and> state example_dev = SYMSPI_STATE_IDLE
   \<and> last_error example_dev = SYMSPI_SUCCESS
   \<and> (\<exists>d'. symspi_error_handle example_env
               (example_dev\<lparr>their_flag_drop_counter := 0x80000000\<rparr>)
               (word_of_int SYMSPI_ERROR_LOGICAL) 0 = Some d'
             \<and> state d' = SYMSPI_STATE_ERROR \<and> last_error d' = SYMSPI_ERROR_LOGICAL)"
proof -
  have a: "symspi_their_flag_drop_isr_sequence example_env
     (example_dev\<lparr>their_flag_drop_counter := 0x7FFFFFFF\<rparr>)
   = Some (example_dev\<lparr>their_flag_drop_counter := 0x80000000,
                       events := events example_dev @ [EvLogUnexpectedCounter]\<rparr>)"
    by (simp add: symspi_their_flag_drop_isr_sequence_def Let_def log_event_def example_dev_def)
  have b: "state example_dev = SYMSPI_STATE_IDLE" "last_error example_dev = SYMSPI_SUCCESS"
     "\<not> close_request example_dev"
    by (simp_all add: example_dev_def)
  have c: "\<exists>d'. symspi_error_handle example_env
               (example_dev\<lparr>their_flag_drop_counter := 0x80000000\<rparr>)
               (word_of_int SYMSPI_ERROR_LOGICAL) 0 = Some d'
             \<and> state d' = SYMSPI_STATE_ERROR \<and> last_error d' = SYMSPI_ERROR_LOGICAL"
    using b by (simp add: error_handle_open Let_def error_handle_entry_fields)
  from a b c show ?thesis by simp
qed

subsection \<open>An exchange with another size\<close>

lemma next_xfer_id_positive: "0 < sint (fst (symspi_get_next_xfer_id d))"
  by (simp add: symspi_get_next_xfer_id_def Let_def)

lemma try_to_error_quiet:
  "sint (their_flag_drop_counter d) \<le> 1 \<Longrightarrow>
   symspi_try_to_error_sequence env d SYMSPI_SUCCESS = Some (SYMSPI_SUCCESS, d)"
  by (simp add: symspi_try_to_error_sequence_def)

lemma to_idle_quiet:
  assumes "\<not> close_request d" and "state d = s" and "sint (their_flag_drop_counter d) \<le> 1"
    and "\<not> delayed_xfer_request d" and "\<not> symspi_is_their_request env d"
  shows "symspi_to_idle_sequence env d s False SYMSPI_SUCCESS =
           Some (SYMSPI_SUCCESS,
                 d\<lparr>state := SYMSPI_STATE_IDLE, events := events d @ [EvTimerStopSync]\<rparr>)"
  using assms
  by (subst symspi_to_idle_sequence.simps)
     (auto simp: symspi_stop_timeout_timer_sync_def log_event_def switch_strict_open
        try_to_error_quiet symspi_is_their_request_def symspi_their_flag_is_set_def Let_def)

lemma get_next_xfer_id_fields:
  "state (snd (symspi_get_next_xfer_id d)) = state d"
  "close_request (snd (symspi_get_next_xfer_id d)) = close_request d"
  "their_flag_drop_counter (snd (symspi_get_next_xfer_id d)) = their_flag_drop_counter d"
  "delayed_xfer_request (snd (symspi_get_next_xfer_id d)) = delayed_xfer_request d"
  "current_xfer (snd (symspi_get_next_xfer_id d)) = current_xfer d"
  "events (snd (symspi_get_next_xfer_id d)) = events d"
  "spi_master_mode (snd (symspi_get_next_xfer_id d)) = spi_master_mode d"
  "hardware_spi_rdy (snd (symspi_get_next_xfer_id d)) = hardware_spi_rdy d"
  by (simp_all add: symspi_get_next_xfer_id_def Let_def)

lemma replace_xfer_mismatch:
  assumes "size_bytes x \<noteq> 0"
    and "\<not> regions_overlap (data_tx (current_xfer d)) (size_bytes (current_xfer d))
           (data_tx x) (size_bytes x)"
    and "size_bytes (current_xfer d) \<noteq> size_bytes x"
    and "state d \<noteq> SYMSPI_STATE_XFER"
  shows "symspi_replace_xfer env d x False = (- SYMSPI_ERROR_XFER_SIZE_MISMATCH, d)"
  using assms by (simp add: symspi_replace_xfer_def Let_def)

lemma update_xfer_sequence_mismatch:
  assumes "\<not> close_request d" and "state d = SYMSPI_STATE_XFER_PREPARE"
    and "size_bytes x \<noteq> 0"
    and "\<not> regions_overlap (data_tx (current_xfer d)) (size_bytes (current_xfer d))
           (data_tx x) (size_bytes x)"
    and "size_bytes (current_xfer d) \<noteq> size_bytes x"
    and "sint (their_flag_drop_counter d) \<le> 1"
    and "\<not> delayed_xfer_request d"
    and "\<not> symspi_is_their_request env d"
  shows "symspi_update_xfer_sequence env d (Some x) SYMSPI_STATE_XFER_PREPARE False =
           Some (SYMSPI_SUCCESS,
                 Some (x\<lparr>xfer_id := fst (symspi_get_next_xfer_id d), xfers_counter := 0\<rparr>),
                 (snd (symspi_get_next_xfer_id d))
                 \<lparr>state := SYMSPI_STATE_IDLE, events := events d @ [EvTimerStopSync]\<rparr>)"
proof -
  let ?d1 = "snd (symspi_get_next_xfer_id d)"
  let ?x1 = "x\<lparr>xfer_id := fst (symspi_get_next_xfer_id d), xfers_counter := 0\<rparr>"
  have r: "symspi_replace_xfer env ?d1 ?x1 False = (- SYMSPI_ERROR_XFER_SIZE_MISMATCH, ?d1)"
    using assms by (intro replace_xfer_mismatch) (simp_all add: get_next_xfer_id_fields)
  have t: "symspi_to_idle_sequence env ?d1 SYMSPI_STATE_XFER_PREPARE False SYMSPI_SUCCESS =
           Some (SYMSPI_SUCCESS,
                 ?d1\<lparr>state := SYMSPI_STATE_IDLE, events := events ?d1 @ [EvTimerStopSync]\<rparr>)"
    using assms
    by (intro to_idle_quiet)
       (simp_all add: get_next_xfer_id_fields symspi_is_their_request_def
          symspi_their_flag_is_set_def)
  show ?thesis
    by (subst symspi_update_xfer_sequence.simps)
       (simp add: r t get_next_xfer_id_fields case_prod_beta Let_def)
qed


lemma xfer_prepare_to_waiting_prev_in_idle:
  assumes "\<not> close_request d" and "state d = SYMSPI_STATE_IDLE"
    and "sint (their_flag_drop_counter d) \<le> 1" and "spi_master_mode d"
  shows "symspi_xfer_prepare_to_waiting_prev_sequence env d =
           Some (SYMSPI_SUCCESS, d\<lparr>events := events d @ [EvOurFlag True]\<rparr>)"
  using assms
  by (simp add: symspi_xfer_prepare_to_waiting_prev_sequence_def symspi_our_flag_set_def
        log_event_def try_to_error_quiet switch_strict_open
        symspi_try_leave_waiting_prev_sequence_def Let_def)

text \<open>
  C1 (what the code does). On an idle master device that is not closing, with
  valid handles, no pending request and a quiet peer, an exchange with a
  non-overlapping xfer of another non-zero size and no forced size change does
  not fail: \<^verbatim>\<open>symspi_update_xfer_sequence\<close> turns the size-mismatch error of
  \<^verbatim>\<open>symspi_replace_xfer\<close> into success, so \<^verbatim>\<open>symspi_data_xchange\<close> goes on, raises our
  flag and returns the fresh, positive xfer id. The device is in IDLE on return
  and the current xfer is the old one.
\<close>

theorem data_xchange_size_mismatch_returns_id:
  assumes "p d" and "\<not> close_request d" and "state d = SYMSPI_STATE_IDLE"
    and "spi_master_mode d"
    and "spi d \<noteq> 0" and "gpiod_our_flag d \<noteq> 0" and "gpiod_their_flag d \<noteq> 0"
    and "size_bytes x \<noteq> 0" and "data_tx x \<noteq> 0"
    and "\<not> regions_overlap (data_tx (current_xfer d)) (size_bytes (current_xfer d))
           (data_tx x) (size_bytes x)"
    and "size_bytes (current_xfer d) \<noteq> size_bytes x"
    and "sint (their_flag_drop_counter d) \<le> 1"
    and "\<not> delayed_xfer_request d"
    and "\<not> symspi_is_their_request env d"
  shows "symspi_data_xchange env d (Some x) False =
           Some (sint (fst (symspi_get_next_xfer_id d)),
                 (snd (symspi_get_next_xfer_id d))
                 \<lparr>events := events d @ [EvTimerStopSync, EvOurFlag True]\<rparr>)
         \<and> 0 < sint (fst (symspi_get_next_xfer_id d))
         \<and> state (snd (symspi_get_next_xfer_id d)) = SYMSPI_STATE_IDLE
         \<and> current_xfer (snd (symspi_get_next_xfer_id d)) = current_xfer d"
proof -
  let ?d0 = "d\<lparr>state := SYMSPI_STATE_XFER_PREPARE\<rparr>"
  let ?d1 = "snd (symspi_get_next_xfer_id d)"
  let ?x1 = "x\<lparr>xfer_id := fst (symspi_get_next_xfer_id d), xfers_counter := 0\<rparr>"
  have nid: "symspi_get_next_xfer_id ?d0 =
               (fst (symspi_get_next_xfer_id d), ?d1\<lparr>state := SYMSPI_STATE_XFER_PREPARE\<rparr>)"
    by (simp add: symspi_get_next_xfer_id_def Let_def)
  have u: "symspi_update_xfer_sequence env ?d0 (Some x) SYMSPI_STATE_XFER_PREPARE False =
           Some (SYMSPI_SUCCESS, Some ?x1,
                 ?d1\<lparr>state := SYMSPI_STATE_IDLE, events := events d @ [EvTimerStopSync]\<rparr>)"
    using assms
    by (subst update_xfer_sequence_mismatch)
       (simp_all add: symspi_is_their_request_def symspi_their_flag_is_set_def nid)
  have i: "symspi_idle_to_xfer_prepare_sequence env d (Some x) False =
           Some (SYMSPI_SUCCESS, Some ?x1,
                 ?d1\<lparr>state := SYMSPI_STATE_IDLE, events := events d @ [EvTimerStopSync]\<rparr>)"
    using assms
    by (subst symspi_idle_to_xfer_prepare_sequence.simps)
       (simp add: symspi_verify_consumer_input_def switch_strict_open try_to_error_quiet u)
  have w: "symspi_xfer_prepare_to_waiting_prev_sequence env
             (?d1\<lparr>state := SYMSPI_STATE_IDLE, events := events d @ [EvTimerStopSync]\<rparr>) =
           Some (SYMSPI_SUCCESS,
                 ?d1\<lparr>state := SYMSPI_STATE_IDLE,
                      events := events d @ [EvTimerStopSync, EvOurFlag True]\<rparr>)"
    using assms
    by (subst xfer_prepare_to_waiting_prev_in_idle) (simp_all add: get_next_xfer_id_fields)
  have st: "state ?d1 = SYMSPI_STATE_IDLE"
    using assms(3) by (simp add: get_next_xfer_id_fields)
  have same: "?d1\<lparr>state := SYMSPI_STATE_IDLE,
                   events := events d @ [EvTimerStopSync, EvOurFlag True]\<rparr>
              = ?d1\<lparr>events := events d @ [EvTimerStopSync, EvOurFlag True]\<rparr>"
    using st by (cases ?d1) simp
  have "symspi_data_xchange env d (Some x) False =
           Some (sint (fst (symspi_get_next_xfer_id d)),
                 ?d1\<lparr>events := events d @ [EvTimerStopSync, EvOurFlag True]\<rparr>)"
    using assms(1,2)
    by (subst symspi_data_xchange.simps) (simp add: symspi_is_closing_def i w same)
  with st show ?thesis
    by (simp add: next_xfer_id_positive get_next_xfer_id_fields)
qed

theorem data_xchange_size_mismatch_example:
  "symspi_data_xchange example_env example_dev (Some example_small_xfer) False
     = Some (2, example_dev\<lparr>next_xfer_id := 3,
                           events := events example_dev @ [EvTimerStopSync, EvOurFlag True]\<rparr>)
   \<and> state example_dev = SYMSPI_STATE_IDLE
   \<and> size_bytes (current_xfer example_dev) = 64"
  using data_xchange_size_mismatch_returns_id [of example_dev example_small_xfer example_env]
  by (simp add: example_dev_def example_small_xfer_def example_env_def regions_overlap_def
        symspi_is_their_request_def symspi_their_flag_is_set_def symspi_get_next_xfer_id_def)

subsection \<open>Init on an initialized device\<close>

text \<open>
  C10 (as the code has it). \<^verbatim>\<open>symspi_init\<close> on a device whose private part exists
  and carries the valid magic number returns at once and changes nothing: neither
  the device, nor its private part, nor the consumer's xfer. What it returns is
  the verdict of the input verification, which runs first: success when the SPI
  handle, both GPIO handles and the default xfer are in order, the error of the
  verification otherwise.
\<close>

theorem init_on_initialized_device:
  assumes "p d" and "magic d = SYMSPI_PRIVATE_MAGIC"
  shows "symspi_init env d default_xfer =
           Some (symspi_verify_consumer_input d default_xfer True, default_xfer, d)"
  using assms by (simp add: symspi_init_def Let_def)

theorem init_on_initialized_device_witness:
  "p example_dev \<and> magic example_dev = SYMSPI_PRIVATE_MAGIC
   \<and> symspi_init example_env example_dev (Some example_xfer) =
       Some (SYMSPI_SUCCESS, Some example_xfer, example_dev)"
  using init_on_initialized_device [of example_dev example_env "Some example_xfer"]
  by (simp add: example_dev_def example_xfer_def symspi_verify_consumer_input_def)

text \<open>
  A second init with no default xfer is an error, not a success: the input
  verification refuses the \<^verbatim>\<open>NULL\<close> xfer before the magic number is looked at.
\<close>

theorem init_on_initialized_device_counterexample:
  "symspi_init example_env example_dev None =
     Some (- SYMSPI_ERROR_NO_XFER, None, example_dev)"
  by (simp add: symspi_init_def Let_def symspi_verify_consumer_input_def example_dev_def)

subsection \<open>Close\<close>

lemma close_private_allocated_fields:
  "p (close_private_allocated d) = False"
  "magic (close_private_allocated d) = 0"
  "close_request (close_private_allocated d) = close_request d"
  "state (close_private_allocated d) = state d"
  "events (close_private_allocated d) = events d @ [EvFreePrivate]"
  "current_xfer (close_private_allocated d) = current_xfer d"
  by (simp_all add: close_private_allocated_def log_event_def)

lemma close_xfer_created_fields:
  "p (close_xfer_created env d) = False"
  "magic (close_xfer_created env d) = 0"
  "close_request (close_xfer_created env d) = close_request d"
  "state (close_xfer_created env d) = state d"
  "events (close_xfer_created env d) = events d @ [EvFreePrivate]"
  "size_bytes (current_xfer (close_xfer_created env d)) = 0"
  by (simp_all add: close_xfer_created_def close_private_allocated_fields
        symspi_do_update_native_spi_xfer_data_def symspi_xfer_free_def
        symspi_do_resize_xfer_def)

lemma close_workqueue_init_fields:
  "p (close_workqueue_init env d) = False"
  "magic (close_workqueue_init env d) = 0"
  "close_request (close_workqueue_init env d) = close_request d"
  "state (close_workqueue_init env d) = state d"
  "events (close_workqueue_init env d) =
     events d @ [EvCancelWorkSync xfer_work, EvCancelWorkSync postprocessing_work,
                 EvCancelWorkSync recover_work, EvCloseWorkqueue, EvFreePrivate]"
  "size_bytes (current_xfer (close_workqueue_init env d)) = 0"
  by (simp_all add: close_workqueue_init_def close_xfer_created_fields
        symspi_cancel_work_sync_def log_event_def)

lemma close_gpio_irqs_fields:
  "p (close_gpio_irqs env d) = False"
  "magic (close_gpio_irqs env d) = 0"
  "close_request (close_gpio_irqs env d) = close_request d"
  "state (close_gpio_irqs env d) = SYMSPI_STATE_COLD"
  "events (close_gpio_irqs env d) =
     events (symspi_close_qpio_irqs d) @
     [EvOurFlag False, EvTimerStopSync,
      EvCancelWorkSync xfer_work, EvCancelWorkSync postprocessing_work,
      EvCancelWorkSync recover_work, EvCloseWorkqueue, EvFreePrivate]"
  "size_bytes (current_xfer (close_gpio_irqs env d)) = 0"
proof -
  show "p (close_gpio_irqs env d) = False" "magic (close_gpio_irqs env d) = 0"
    "state (close_gpio_irqs env d) = SYMSPI_STATE_COLD"
    "size_bytes (current_xfer (close_gpio_irqs env d)) = 0"
    by (simp_all add: close_gpio_irqs_def close_workqueue_init_fields
          symspi_switch_state_val_forced_def)
  show "close_request (close_gpio_irqs env d) = close_request d"
    by (simp add: close_gpio_irqs_def close_workqueue_init_fields
          symspi_switch_state_val_forced_def symspi_stop_timeout_timer_sync_def
          symspi_our_flag_drop_def log_event_def symspi_close_qpio_irqs_def)
  show "events (close_gpio_irqs env d) =
     events (symspi_close_qpio_irqs d) @
     [EvOurFlag False, EvTimerStopSync,
      EvCancelWorkSync xfer_work, EvCancelWorkSync postprocessing_work,
      EvCancelWorkSync recover_work, EvCloseWorkqueue, EvFreePrivate]"
    by (simp add: close_gpio_irqs_def close_workqueue_init_fields
          symspi_switch_state_val_forced_def symspi_stop_timeout_timer_sync_def
          symspi_our_flag_drop_def log_event_def)
qed

lemma close_full_fields:
  "p (close_full env d) = False"
  "magic (close_full env d) = 0"
  "close_request (close_full env d) = close_request d"
  "state (close_full env d) = SYMSPI_STATE_COLD"
  "size_bytes (current_xfer (close_full env d)) = 0"
  "\<exists>es. events (close_full env d) = events d @ EvProcfsClose # es @ [EvFreePrivate]"
  by (simp_all add: close_full_def close_gpio_irqs_fields symspi_close_qpio_irqs_def
        log_event_def Let_def)

lemma close_returns_first:
  assumes "p d" and "magic d = SYMSPI_PRIVATE_MAGIC" and "\<not> close_request d"
    and "state d \<noteq> SYMSPI_STATE_COLD" and "init_level d = SYMSPI_INIT_LEVEL_FULL"
  shows "symspi_close env d = (SYMSPI_SUCCESS, close_full env (d\<lparr>close_request := True\<rparr>))"
  using assms by (simp add: symspi_close_def Let_def)

text \<open>
  C9 (as the code has it). On a fully initialized device that is not cold: with
  the latch already set (and the private part still there) \<^verbatim>\<open>symspi_close\<close>
  returns the already-closing error and changes nothing; with the latch not yet
  set it sets it, tears the device down (state COLD, buffers released, private
  part freed and \<^verbatim>\<open>symspi->p\<close> reset) and returns success, and a further call on
  the device it leaves finds no private part and returns the no-device error,
  changing nothing.
\<close>

theorem close_latch:
  assumes "p d" and "magic d = SYMSPI_PRIVATE_MAGIC"
    and "init_level d = SYMSPI_INIT_LEVEL_FULL" and "state d \<noteq> SYMSPI_STATE_COLD"
  shows "(if close_request d
          then symspi_close env d = (- EALREADY, d)
          else fst (symspi_close env d) = SYMSPI_SUCCESS
               \<and> close_request (snd (symspi_close env d))
               \<and> \<not> p (snd (symspi_close env d))
               \<and> magic (snd (symspi_close env d)) = 0
               \<and> state (snd (symspi_close env d)) = SYMSPI_STATE_COLD
               \<and> size_bytes (current_xfer (snd (symspi_close env d))) = 0
               \<and> (\<exists>es. events (snd (symspi_close env d))
                          = events d @ EvProcfsClose # es @ [EvFreePrivate])
               \<and> symspi_close env (snd (symspi_close env d))
                   = (- ENODEV, snd (symspi_close env d)))"
proof (cases "close_request d")
  case True
  with assms show ?thesis by (simp add: symspi_close_def)
next
  case False
  have c: "symspi_close env d = (SYMSPI_SUCCESS, close_full env (d\<lparr>close_request := True\<rparr>))"
    using assms False by (simp add: close_returns_first)
  have n: "symspi_close env (close_full env (d\<lparr>close_request := True\<rparr>))
             = (- ENODEV, close_full env (d\<lparr>close_request := True\<rparr>))"
    by (simp add: symspi_close_def close_full_fields)
  have e: "\<exists>es. events (close_full env (d\<lparr>close_request := True\<rparr>))
                 = events d @ EvProcfsClose # es @ [EvFreePrivate]"
    using close_full_fields(6) [of env "d\<lparr>close_request := True\<rparr>"] by simp
  from False e show ?thesis by (simp add: c n close_full_fields)
qed

theorem close_latch_witness:
  "p example_dev \<and> magic example_dev = SYMSPI_PRIVATE_MAGIC
   \<and> init_level example_dev = SYMSPI_INIT_LEVEL_FULL
   \<and> state example_dev \<noteq> SYMSPI_STATE_COLD
   \<and> fst (symspi_close example_env example_dev) = SYMSPI_SUCCESS
   \<and> \<not> p (snd (symspi_close example_env example_dev))
   \<and> state (snd (symspi_close example_env example_dev)) = SYMSPI_STATE_COLD
   \<and> symspi_close example_env (example_dev\<lparr>close_request := True\<rparr>)
       = (- EALREADY, example_dev\<lparr>close_request := True\<rparr>)"
proof -
  have h: "p example_dev" "magic example_dev = SYMSPI_PRIVATE_MAGIC"
    "init_level example_dev = SYMSPI_INIT_LEVEL_FULL"
    "state example_dev \<noteq> SYMSPI_STATE_COLD" "\<not> close_request example_dev"
    by (simp_all add: example_dev_def)
  show ?thesis
    using close_latch [of example_dev example_env]
          close_latch [of "example_dev\<lparr>close_request := True\<rparr>" example_env] h
    by simp
qed

text \<open>
  The call after a completed close does not see the latch: the private part is
  gone, and the answer is the no-device error, not the already-closing one.
\<close>

theorem close_second_call_counterexample:
  "fst (symspi_close example_env example_dev) = SYMSPI_SUCCESS
   \<and> fst (symspi_close example_env (snd (symspi_close example_env example_dev))) = - ENODEV"
proof -
  have h: "p example_dev" "magic example_dev = SYMSPI_PRIVATE_MAGIC"
    "init_level example_dev = SYMSPI_INIT_LEVEL_FULL"
    "state example_dev \<noteq> SYMSPI_STATE_COLD" "\<not> close_request example_dev"
    by (simp_all add: example_dev_def)
  have c: "symspi_close example_env example_dev
             = (SYMSPI_SUCCESS, close_full example_env (example_dev\<lparr>close_request := True\<rparr>))"
    using h by (simp add: close_returns_first)
  have n: "symspi_close example_env
             (close_full example_env (example_dev\<lparr>close_request := True\<rparr>))
           = (- ENODEV, close_full example_env (example_dev\<lparr>close_request := True\<rparr>))"
    by (simp add: symspi_close_def close_full_fields)
  show ?thesis
    by (simp add: c n)
qed

subsection \<open>The smoothed interval of the error ledger\<close>

text \<open>
  As long as no product wraps, the code computes the decay and the smoothed
  interval of the specification's formula; and for every known kind the report
  keeps its books as described: the rate is 1000 divided by the new interval,
  the report is suppressed exactly when less than 10000 ms passed since the
  last report and the rate did not cross the threshold upwards, and otherwise
  the time of the report is updated and the count of suppressed reports zeroed.
\<close>

lemma unat_min_word: "unat (min a b) = min (unat a) (unat b)" for a b :: "'a::len word"
  by (simp add: min_def word_le_nat_alt)

lemma unat_max_word: "unat (max a b) = max (unat a) (unat b)" for a b :: "'a::len word"
  by (simp add: max_def word_le_nat_alt)

lemma unat_ucast_32_up:
  assumes "32 \<le> LENGTH('l::len)"
  shows "unat (ucast (w :: 32 word) :: 'l word) = unat w"
proof -
  have "unat w < 2 ^ 32" using unsigned_less [of w] by simp
  also have "(2::nat) ^ 32 \<le> 2 ^ LENGTH('l)"
    using assms by (intro power_increasing) simp_all
  finally show ?thesis by (simp add: unsigned_ucast_eq take_bit_nat_eq_self)
qed

lemma unat_ucast_32_down:
  assumes "unat (w :: 'l::len word) < 2 ^ 32"
  shows "unat (ucast w :: 32 word) = unat w"
  using assms by (simp add: unsigned_ucast_eq take_bit_nat_eq_self)

lemma decay_percent_in_range:
  assumes "unat dt \<le> 85899345"
  shows "unat (decay_percent dt) = spec_decay_percent (unat dt)"
proof -
  have "unat (50 :: 32 word) * unat dt < 2 ^ LENGTH(32)" using assms by simp
  then have m: "unat (50 * dt) = 50 * unat dt"
    using unat_mult_lem [of 50 dt] by simp
  show ?thesis
    by (simp add: decay_percent_def unat_max_word unat_min_word unat_div m
          spec_decay_percent_def max.commute min.commute)
qed

lemma spec_decay_percent_bounds: "3 \<le> spec_decay_percent n" "spec_decay_percent n \<le> 100"
  by (simp_all add: spec_decay_percent_def)


lemma weighted_mean_bound:
  fixes a i t :: nat
  assumes "a \<le> 100" and "i < b" and "t < b"
  shows "((100 - a) * i + a * t) div 100 < b"
proof -
  have "(100 - a) * i + a * t \<le> (100 - a) * (b - 1) + a * (b - 1)"
    using assms by (intro add_mono mult_le_mono2) simp_all
  also have "\<dots> = 100 * (b - 1)"
    using assms(1) by (simp add: add_mult_distrib [symmetric])
  finally have "((100 - a) * i + a * t) div 100 \<le> b - 1"
    by (simp add: div_le_mono [of _ "100 * (b - 1)" 100, simplified])
  with assms(2) show ?thesis by simp
qed

lemma new_exp_avg_interval_in_range:
  fixes interval :: "'l::len word"
  assumes L: "32 \<le> LENGTH('l)"
    and dt: "unat dt \<le> 42949672"
    and iv: "unat interval < 2 ^ 32"
    and fit: "100 * unat interval + 100 * unat dt < 2 ^ LENGTH('l)"
  shows "unat (new_exp_avg_interval (decay_percent dt) dt interval)
           = spec_exp_avg_interval (unat interval) (unat dt)"
proof -
  let ?a = "spec_decay_percent (unat dt)"
  let ?I = "unat interval" and ?T = "unat dt"
  have p32: "(2::nat) ^ 32 \<le> 2 ^ LENGTH('l)"
    using L by (intro power_increasing) simp_all
  have a: "unat (decay_percent dt) = ?a"
    using dt by (intro decay_percent_in_range) simp
  have a3: "3 \<le> ?a" and a100: "?a \<le> 100" by (rule spec_decay_percent_bounds)+
  have le100: "decay_percent dt \<le> 100"
    using a100 by (simp add: word_le_nat_alt a)
  have c1: "unat (100 - decay_percent dt) = 100 - ?a"
    using le100 by (simp add: unat_sub a)
  have c2: "unat (ucast (100 - decay_percent dt) :: 'l word) = 100 - ?a"
    by (simp add: unat_ucast_32_up [OF L] c1)
  have "?a * ?T \<le> 100 * 42949672"
    using a100 dt by (intro mult_mono) simp_all
  then have "unat (decay_percent dt) * unat dt < 2 ^ LENGTH(32)"
    by (simp add: a)
  then have c3: "unat (decay_percent dt * dt) = ?a * ?T"
    using unat_mult_lem [of "decay_percent dt" dt] by (simp add: a)
  have c4: "unat (ucast (decay_percent dt * dt) :: 'l word) = ?a * ?T"
    by (simp add: unat_ucast_32_up [OF L] c3)
  have b1: "(100 - ?a) * ?I \<le> 100 * ?I" by simp
  have b2: "?a * ?T \<le> 100 * ?T" using a100 by simp
  have s: "(100 - ?a) * ?I + ?a * ?T < 2 ^ LENGTH('l)"
    using b1 b2 fit by linarith
  then have "unat (ucast (100 - decay_percent dt) :: 'l word) * unat interval < 2 ^ LENGTH('l)"
    by (simp add: c2)
  then have c5: "unat ((ucast (100 - decay_percent dt) :: 'l word) * interval) = (100 - ?a) * ?I"
    using unat_mult_lem [of "ucast (100 - decay_percent dt) :: 'l word" interval]
    by (simp add: c2)
  have c6: "unat ((ucast (100 - decay_percent dt) :: 'l word) * interval
                  + ucast (decay_percent dt * dt)) = (100 - ?a) * ?I + ?a * ?T"
    using unat_add_lem [of "(ucast (100 - decay_percent dt) :: 'l word) * interval"
                           "ucast (decay_percent dt * dt) :: 'l word"] s
    by (simp add: c5 c4)
  have h: "(100::nat) < 2 ^ LENGTH('l)" using p32 by simp
  have c100: "unat (100 :: 'l word) = 100"
    using h by (simp add: take_bit_nat_eq_self)
  have c7: "unat (((ucast (100 - decay_percent dt) :: 'l word) * interval
                  + ucast (decay_percent dt * dt)) div 100)
            = ((100 - ?a) * ?I + ?a * ?T) div 100"
    by (simp only: unat_div c6 c100)
  have t32: "?T < 2 ^ 32" using dt by simp
  have c8: "((100 - ?a) * ?I + ?a * ?T) div 100 < 2 ^ 32"
    using a100 iv t32 by (rule weighted_mean_bound)
  have c9: "unat (ucast (((ucast (100 - decay_percent dt) :: 'l word) * interval
                  + ucast (decay_percent dt * dt)) div 100) :: 32 word)
            = ((100 - ?a) * ?I + ?a * ?T) div 100"
    using c8 by (simp add: unat_ucast_32_down c7)
  show ?thesis
    unfolding new_exp_avg_interval_def spec_exp_avg_interval_def
    by (simp only: unat_ucast_32_up [OF L] unat_max_word c9) simp
qed


lemma error_rec_index_bound:
  "error_rec_index rs k = Some i \<Longrightarrow> i < length rs"
  by (induction rs arbitrary: i) (auto split: if_splits)

lemma error_report_bookkeeping:
  assumes "symspi_get_error_rec d k = Some i"
  shows "(let e = errors d ! i;
              dt = since_msec (now_msec env) (last_occurence_time_msec e);
              sr = since_msec (now_msec env) (last_report_time_msec e);
              iv = new_exp_avg_interval (decay_percent dt) dt (exp_avg_interval_msec e);
              rate = (ucast (1000 div iv) :: 32 word);
              prev = 1000 div max (ucast (exp_avg_interval_msec e) :: 32 word) 1;
              suppressed = (sr < SYMSPI_MIN_ERR_REPORT_INTERVAL_MSEC
                            \<and> \<not> (prev < err_per_sec_threshold e
                                   \<and> err_per_sec_threshold e \<le> rate));
              r = symspi_error_report env d k s;
              e' = errors (snd r) ! i
          in fst r = (\<not> suppressed)
             \<and> exp_avg_interval_msec e' = iv
             \<and> total_count e' = total_count e + 1
             \<and> last_occurence_time_msec e' = ucast (now_msec env)
             \<and> unreported_count e' = (if suppressed then unreported_count e + 1 else 0)
             \<and> last_report_time_msec e'
                 = (if suppressed then last_report_time_msec e else ucast (now_msec env))
             \<and> last_reported e' = (\<not> suppressed))"
proof -
  have "i < length (errors d)"
    using assms error_rec_index_bound [of "errors d" k i]
    by (auto simp: symspi_get_error_rec_def split: if_splits)
  then show ?thesis
    using assms by (auto simp: symspi_error_report_def Let_def log_event_def)
qed

lemma other_side_rec_index: "error_rec_index (initial_error_recs :: 64 symspi_error_rec list) 32 = Some 4"
  by (simp add: initial_error_recs_def zero_error_rec_def)

lemma overflow_since: "since_msec (42949673::32 word) (0::64 word) = 42949673"
  by (simp add: since_msec_def)

lemma overflow_decay: "decay_percent 42949673 = 100"
  by (simp add: decay_percent_def)

lemma overflow_interval: "new_exp_avg_interval 100 42949673 (0 :: 64 word) = 1"
  by (simp add: new_exp_avg_interval_def)

lemma overflow_spec_interval: "spec_exp_avg_interval 0 42949673 = 42949673"
  by (simp add: spec_exp_avg_interval_def spec_decay_percent_def)


lemma example_dev_ledger:
  "p example_dev" "magic example_dev = SYMSPI_PRIVATE_MAGIC"
  "errors example_dev = initial_error_recs"
  by (simp_all add: example_dev_def)

lemma other_side_rec_initial:
  "(initial_error_recs :: 64 symspi_error_rec list) ! 4
     = zero_error_rec\<lparr>err_num := 32, err_per_sec_threshold := 5\<rparr>"
  by (simp add: initial_error_recs_def)

text \<open>
  C5 (what the code does at a long quiet time). The first other-side error
  42949673 ms (11 h 56 min) after start: the decay is 100 percent, and the
  product \<open>100 \<cdot> 42949673\<close>, computed in \<^verbatim>\<open>unsigned int\<close>, wraps to 4. The
  smoothed interval becomes 1 ms and the rate 1000 per second, so the report is
  classed "error"; the formula of the specification gives the interval 42949673
  ms (a rate of 0).
\<close>

theorem error_report_interval_overflow:
  "symspi_error_report (example_env\<lparr>now_msec := 42949673\<rparr>) example_dev 32 0
     = (True,
        log_event (EvReport 32 0 True)
          (example_dev
           \<lparr>errors := (errors example_dev)
              [4 := zero_error_rec
                    \<lparr>err_num := 32, err_per_sec_threshold := 5,
                     total_count := 1, last_occurence_time_msec := 42949673,
                     exp_avg_interval_msec := 1, last_report_time_msec := 42949673,
                     last_reported := True, unreported_count := 0\<rparr>]\<rparr>))
   \<and> spec_exp_avg_interval 0 42949673 = 42949673"
proof -
  have g: "symspi_get_error_rec example_dev 32 = Some 4"
    by (simp add: symspi_get_error_rec_def example_dev_ledger other_side_rec_index)
  have e0: "errors example_dev ! 4
              = (zero_error_rec\<lparr>err_num := 32, err_per_sec_threshold := 5\<rparr>
                   :: 64 symspi_error_rec)"
    by (simp add: example_dev_ledger other_side_rec_initial)
  show ?thesis
    by (simp add: symspi_error_report_def g e0 Let_def zero_error_rec_def overflow_since
          overflow_decay overflow_interval overflow_spec_interval)
qed

theorem error_report_interval_overflow_witness:
  "fst (symspi_error_report (example_env\<lparr>now_msec := 42949673\<rparr>) example_dev 32 0)
   \<and> exp_avg_interval_msec
         (errors (snd (symspi_error_report (example_env\<lparr>now_msec := 42949673\<rparr>)
                         example_dev 32 0)) ! 4) = 1
   \<and> spec_exp_avg_interval 0 42949673 \<noteq> 1"
  using error_report_interval_overflow
  by (simp add: log_event_def example_dev_ledger initial_error_recs_def)


subsection \<open>The drop counter\<close>



















end
